theory Spec2Isabelle
  imports Complex_Main
begin

section \<open>Python values used by \<open>electrum_cmd_util.py\<close>\<close>

text \<open>
  The exceptions the modelled code can raise.  The source raises plain \<open>Exception\<close>
  objects with a message (\<open>'Incorrect API password'\<close>, \<open>'... does not exist'\<close>,
  \<open>'Failed to estimate tx size ...'\<close>, \<open>'Failed to create tx ...'\<close>,
  \<open>'Failed to broadcast ...'\<close>); the arithmetic ones are Python's own.
\<close>

datatype error =
    IncorrectAPIPassword
  | WalletLoadError
  | ZeroDivisionError
  | OverflowError
  | ValueError
  | TypeError
  | TxSizeError
  | CreateTxError
  | BroadcastError

subsection \<open>Python floats (IEEE 754 binary64, round to nearest, ties to even)\<close>

text \<open>
  \<open>Finite m e\<close> is the double \<open>m * 2 ^ e\<close>, kept in the canonical form of binary64:
  \<open>\<bar>m\<bar> < 2 ^ 53\<close>, \<open>- 1074 \<le> e \<le> 971\<close>, and \<open>2 ^ 52 \<le> \<bar>m\<bar>\<close> unless \<open>e = - 1074\<close>
  (subnormal); zero is \<open>Finite 0 0\<close> (the sign of zero is not represented: no
  operation of the modelled code observes it).
\<close>

datatype pyfloat = Finite int int | PInf | NInf | NaN

definition float_val :: "int \<Rightarrow> int \<Rightarrow> rat" where
  "float_val m e = (if 0 \<le> e then of_int m * 2 ^ nat e else of_int m / 2 ^ nat (- e))"

fun bit_length :: "nat \<Rightarrow> nat" where
  "bit_length n = (if n = 0 then 0 else Suc (bit_length (n div 2)))"

declare bit_length.simps [simp del]

text \<open>\<open>floor_log2 a b\<close> is \<open>\<lfloor>log\<^sub>2 (a / b)\<rfloor>\<close> for positive \<open>a\<close> and \<open>b\<close>: the difference
  of the bit lengths, corrected by one comparison.\<close>

definition log2_adjust :: "int \<Rightarrow> int \<Rightarrow> int \<Rightarrow> int" where
  "log2_adjust a b d =
     (if (if 0 \<le> d then b * 2 ^ nat d \<le> a else b \<le> a * 2 ^ nat (- d)) then d else d - 1)"

definition floor_log2 :: "int \<Rightarrow> int \<Rightarrow> int" where
  "floor_log2 a b = log2_adjust a b (int (bit_length (nat a)) - int (bit_length (nat b)))"

text \<open>\<open>n / d\<close> rounded to the nearest integer, a tie going to the even one
  (\<open>0 \<le> n\<close>, \<open>0 < d\<close>).\<close>

definition half_even :: "int \<Rightarrow> int \<Rightarrow> int \<Rightarrow> int" where
  "half_even f r d =
     (if 2 * r < d then f else if d < 2 * r then f + 1 else if even f then f else f + 1)"

definition round_half_even :: "int \<Rightarrow> int \<Rightarrow> int" where
  "round_half_even n d = half_even (n div d) (n mod d) d"

text \<open>The exponent of the unit in the last place of \<open>a / b\<close>: 53 significant bits, and
  never below the subnormal exponent \<open>- 1074\<close>.\<close>

definition ulp_exponent :: "int \<Rightarrow> int \<Rightarrow> int" where
  "ulp_exponent a b = max (floor_log2 a b) (- 1022) - 52"

definition round_at :: "int \<Rightarrow> int \<Rightarrow> int \<Rightarrow> int" where
  "round_at a b e = (if 0 \<le> e then round_half_even a (b * 2 ^ nat e)
                     else round_half_even (a * 2 ^ nat (- e)) b)"

text \<open>The rounded significand \<open>m\<close> at exponent \<open>e\<close> as a double: a carry to \<open>2 ^ 53\<close>
  moves to the next exponent, an exponent above 971 is an overflow to infinity.\<close>

definition pack :: "bool \<Rightarrow> int \<Rightarrow> int \<Rightarrow> pyfloat" where
  "pack neg m e =
     (if m = 2 ^ 53
      then (if 971 < e + 1 then (if neg then NInf else PInf)
            else Finite (if neg then - (2 ^ 52) else 2 ^ 52) (e + 1))
      else if 971 < e then (if neg then NInf else PInf)
      else if m = 0 then Finite 0 0
      else Finite (if neg then - m else m) e)"

text \<open>\<open>to_float p q\<close> is the double nearest to the exact quotient \<open>p / q\<close> (\<open>q \<noteq> 0\<close>).\<close>

definition to_float :: "int \<Rightarrow> int \<Rightarrow> pyfloat" where
  "to_float p q =
     (if p = 0 then Finite 0 0
      else pack ((p < 0) \<noteq> (q < 0))
             (round_at \<bar>p\<bar> \<bar>q\<bar> (ulp_exponent \<bar>p\<bar> \<bar>q\<bar>))
             (ulp_exponent \<bar>p\<bar> \<bar>q\<bar>))"

text \<open>Python \<open>x * y\<close> on floats.\<close>

fun fmul :: "pyfloat \<Rightarrow> pyfloat \<Rightarrow> pyfloat" where
  "fmul (Finite m1 e1) (Finite m2 e2) =
     (if 0 \<le> e1 + e2 then to_float (m1 * m2 * 2 ^ nat (e1 + e2)) 1
      else to_float (m1 * m2) (2 ^ nat (- (e1 + e2))))"
| "fmul NaN y = NaN"
| "fmul x NaN = NaN"
| "fmul PInf (Finite m e) = (if m = 0 then NaN else if 0 < m then PInf else NInf)"
| "fmul NInf (Finite m e) = (if m = 0 then NaN else if 0 < m then NInf else PInf)"
| "fmul (Finite m e) PInf = (if m = 0 then NaN else if 0 < m then PInf else NInf)"
| "fmul (Finite m e) NInf = (if m = 0 then NaN else if 0 < m then NInf else PInf)"
| "fmul PInf PInf = PInf"
| "fmul PInf NInf = NInf"
| "fmul NInf PInf = NInf"
| "fmul NInf NInf = PInf"

text \<open>Python \<open>x / y\<close> on floats: a zero divisor raises \<open>ZeroDivisionError\<close>.\<close>

fun fdiv :: "pyfloat \<Rightarrow> pyfloat \<Rightarrow> error + pyfloat" where
  "fdiv (Finite m1 e1) (Finite m2 e2) =
     (if m2 = 0 then Inl ZeroDivisionError
      else if 0 \<le> e1 - e2 then Inr (to_float (m1 * 2 ^ nat (e1 - e2)) m2)
      else Inr (to_float m1 (m2 * 2 ^ nat (e2 - e1))))"
| "fdiv PInf (Finite m e) =
     (if m = 0 then Inl ZeroDivisionError else Inr (if 0 < m then PInf else NInf))"
| "fdiv NInf (Finite m e) =
     (if m = 0 then Inl ZeroDivisionError else Inr (if 0 < m then NInf else PInf))"
| "fdiv NaN (Finite m e) = (if m = 0 then Inl ZeroDivisionError else Inr NaN)"
| "fdiv (Finite m e) PInf = Inr (Finite 0 0)"
| "fdiv (Finite m e) NInf = Inr (Finite 0 0)"
| "fdiv x y = Inr NaN"

text \<open>Python \<open>float(i)\<close> for an int \<open>i\<close>, as done implicitly by \<open>i / 1.0e8\<close>:
  \<open>OverflowError\<close> when the int is too large for a double.\<close>

definition float_of_int :: "int \<Rightarrow> error + pyfloat" where
  "float_of_int i = (case to_float i 1 of Finite m e \<Rightarrow> Inr (Finite m e) | _ \<Rightarrow> Inl OverflowError)"

text \<open>Python \<open>i / y\<close> for an int \<open>i\<close> and a float \<open>y\<close>.\<close>

definition int_div_float :: "int \<Rightarrow> pyfloat \<Rightarrow> error + pyfloat" where
  "int_div_float i y = (case float_of_int i of Inl err \<Rightarrow> Inl err | Inr x \<Rightarrow> fdiv x y)"

text \<open>Python \<open>a / b\<close> for two ints: the correctly rounded quotient.\<close>

definition int_truediv :: "int \<Rightarrow> int \<Rightarrow> error + pyfloat" where
  "int_truediv a b =
     (if b = 0 then Inl ZeroDivisionError
      else case to_float a b of Finite m e \<Rightarrow> Inr (Finite m e) | _ \<Rightarrow> Inl OverflowError)"

text \<open>Python \<open>int(x)\<close> for a float: truncation towards zero.\<close>

fun py_int :: "pyfloat \<Rightarrow> error + int" where
  "py_int (Finite m e) =
     Inr (if 0 \<le> e then m * 2 ^ nat e
          else if 0 \<le> m then m div 2 ^ nat (- e) else - ((- m) div 2 ^ nat (- e)))"
| "py_int PInf = Inl OverflowError"
| "py_int NInf = Inl OverflowError"
| "py_int NaN = Inl ValueError"

text \<open>Python \<open>x >= y\<close> on floats.\<close>

fun fge :: "pyfloat \<Rightarrow> pyfloat \<Rightarrow> bool" where
  "fge (Finite m1 e1) (Finite m2 e2) =
     (m2 * 2 ^ nat (e2 - min e1 e2) \<le> m1 * 2 ^ nat (e1 - min e1 e2))"
| "fge NaN y = False"
| "fge x NaN = False"
| "fge PInf y = True"
| "fge x NInf = True"
| "fge x PInf = False"
| "fge NInf y = False"

text \<open>The literals \<open>1.0e8\<close> and \<open>0.00000001\<close> of the source: a decimal literal denotes
  the double nearest to it.\<close>

definition float_1e8 :: pyfloat where
  "float_1e8 = to_float 100000000 1"

definition float_1em8 :: pyfloat where
  "float_1em8 = to_float 1 100000000"

section \<open>The request table (\<open>DbManager\<close>)\<close>

text \<open>
  One row of the table of send requests, with the attributes the source reads:
  \<open>tx.sr_id\<close>, \<open>tx.address\<close>, \<open>tx.amount\<close> (satoshis), \<open>tx.txid\<close>, \<open>obj.fee\<close>,
  \<open>tx.timestamp_ms\<close>, and the wallet the request belongs to.
\<close>

record request =
  sr_id :: nat
  address :: string
  amount :: int
  wallet_id :: nat
  txid :: "string option"
  fee :: "pyfloat option"
  timestamp_ms :: nat

text \<open>\<open>get_send_history\<close> reports a row as \<open>'sent' if tx.txid else 'queued'\<close>: a row is
  queued while its \<open>txid\<close> is \<open>None\<close> or the empty string.\<close>

definition is_queued :: "request \<Rightarrow> bool" where
  "is_queued r = (case txid r of None \<Rightarrow> True | Some t \<Rightarrow> t = [])"

definition is_sent :: "request \<Rightarrow> bool" where
  "is_sent r = (\<not> is_queued r)"

text \<open>Modelled from the spec: \<open>DbManager.get_unsent\<close> (the module \<open>db_manager\<close> that
  \<open>electrum_cmd_util.py\<close> imports is not available).  Following \<open>Ledger.list_queued\<close>, it returns all queued requests of one wallet, oldest
  first, and changes nothing (rows are kept in insertion order).\<close>

definition get_unsent :: "nat \<Rightarrow> request list \<Rightarrow> request list" where
  "get_unsent wid rows = filter (\<lambda>r. wallet_id r = wid \<and> is_queued r) rows"

text \<open>Modelled from the spec: \<open>DbManager.insert_transaction\<close> (module \<open>db_manager\<close> is not
  available).  Following \<open>Ledger.append\<close>, it inserts a new queued request under a fresh
  identifier and returns the inserted row.\<close>

definition fresh_sr_id :: "request list \<Rightarrow> nat" where
  "fresh_sr_id rows = Suc (fold max (map sr_id rows) 0)"

definition insert_transaction ::
  "string \<Rightarrow> int \<Rightarrow> nat \<Rightarrow> nat \<Rightarrow> request list \<Rightarrow> request list \<times> request" where
  "insert_transaction addr sat wid now rows =
     (let obj = \<lparr>sr_id = fresh_sr_id rows, address = addr, amount = sat, wallet_id = wid,
                 txid = None, fee = None, timestamp_ms = now\<rparr>
      in (rows @ [obj], obj))"

text \<open>Modelled from the spec: \<open>DbManager.update_transactions\<close> (module \<open>db_manager\<close> is not
  available).  Following \<open>Ledger.mark_sent\<close>, it moves the queued requests of the wallet to
  sent in one step, stamping the shared \<open>txid\<close> and a fee share on each of them.  How the
  share of a row is computed from \<open>total_fee\<close> and \<open>total_sat_amount\<close> is left to the
  parameter \<open>share\<close>.\<close>

definition update_transactions ::
  "(request \<Rightarrow> pyfloat) \<Rightarrow> nat \<Rightarrow> string \<Rightarrow> request list \<Rightarrow> request list" where
  "update_transactions share wid x rows =
     map (\<lambda>r. if wallet_id r = wid \<and> is_queued r
               then r\<lparr>txid := Some x, fee := Some (share r)\<rparr> else r) rows"

text \<open>Modelled from the spec: \<open>DbManager.get_all_txs\<close> (module \<open>db_manager\<close> is not
  available).  Following \<open>Ledger.list_recent\<close>, it returns the newest \<open>limit\<close> rows, newest first.\<close>

definition get_all_txs :: "nat \<Rightarrow> request list \<Rightarrow> request list" where
  "get_all_txs limit rows = take limit (rev rows)"

section \<open>The wallet, the network and the configuration\<close>

text \<open>A transaction built by the Electrum wallet: what was asked for (outputs and fee)
  and what the wallet answers (\<open>tx.txid()\<close>, \<open>tx.estimated_size()\<close>).\<close>

record transaction =
  tx_id :: string
  tx_outputs :: "(string \<times> pyfloat) list"
  tx_fee :: pyfloat
  tx_size :: nat

text \<open>
  What the code reads from its surroundings, as parameters:
  \<^item> \<open>config['USER']['api_password']\<close> and \<open>int(config['USER']['batching_threshold'])\<close>;
  \<^item> whether \<open>storage.decrypt\<close> accepts a wallet password;
  \<^item> \<open>network.is_connected()\<close> and \<open>network.get_fee_estimates()\<close> (a dict, here an
    association list) after a given number of one-second sleeps;
  \<^item> \<open>wallet.create_transaction\<close>: from the wallet's local transactions, the outputs and
    the fee, the \<open>txid\<close> and estimated size of the built transaction, or a failure;
  \<^item> \<open>conf.estimate_fee\<close>: the fee in satoshis for a size, at a given time;
  \<^item> whether \<open>network.broadcast_transaction\<close> accepts a transaction;
  \<^item> the fee share \<open>update_transactions\<close> stores on a row, and the clock.
\<close>

record env =
  api_password :: string
  batching_threshold :: int
  decrypt :: "nat \<Rightarrow> string \<Rightarrow> bool"
  is_connected :: "nat \<Rightarrow> bool"
  get_fee_estimates :: "nat \<Rightarrow> (nat \<times> int) list"
  create_transaction ::
    "string set \<Rightarrow> (string \<times> pyfloat) list \<Rightarrow> pyfloat \<Rightarrow> (string \<times> nat) option"
  estimate_fee :: "nat \<Rightarrow> nat \<Rightarrow> int"
  broadcast_transaction :: "transaction \<Rightarrow> bool"
  fee_share :: "pyfloat \<Rightarrow> int \<Rightarrow> request \<Rightarrow> pyfloat"
  clock_ms :: "nat \<Rightarrow> nat"

text \<open>
  The state the calls act on: the request table, the wallet files (the local transactions
  each stored wallet holds), the wallet loaded in memory by the current \<open>cmd_manager\<close>,
  the transactions the network has accepted, and the seconds slept so far.
\<close>

record state =
  db :: "request list"
  storage :: "nat \<Rightarrow> string set option"
  wallet :: "string set"
  network :: "transaction list"
  seconds :: nat

section \<open>\<open>ElectrumCmdUtil\<close>\<close>

text \<open>
  \<open>wait_for_connection\<close> and \<open>wait_for_fee_estimates\<close> poll once per second with no bound:
  \<^verbatim>\<open>while not self.network.is_connected(): await asyncio.sleep(1)\<close> and
  \<^verbatim>\<open>while not self.network.get_fee_estimates(): await asyncio.sleep(1)\<close>.
  The result is the time at which the loop is left; \<open>None\<close> is a loop that never ends.  An
  empty dict is false in Python.
\<close>

partial_function (option) wait_for_connection :: "env \<Rightarrow> nat \<Rightarrow> nat option" where
  "wait_for_connection E t =
     (if is_connected E t then Some t else wait_for_connection E (Suc t))"

partial_function (option) wait_for_fee_estimates :: "env \<Rightarrow> nat \<Rightarrow> nat option" where
  "wait_for_fee_estimates E t =
     (if get_fee_estimates E t \<noteq> [] then Some t else wait_for_fee_estimates E (Suc t))"

text \<open>\<open>load_wallet\<close>: the wallet file must exist and decrypt; the loaded wallet starts
  from what the file holds.\<close>

definition load_wallet :: "env \<Rightarrow> nat \<Rightarrow> string \<Rightarrow> state \<Rightarrow> error + string set" where
  "load_wallet E wid wallet_password s =
     (case storage s wid of
        None \<Rightarrow> Inl WalletLoadError
      | Some txs \<Rightarrow> if decrypt E wid wallet_password then Inr txs else Inl WalletLoadError)"

text \<open>\<open>wallet.save_db()\<close> writes the loaded wallet back to its file.\<close>

definition save_db :: "nat \<Rightarrow> state \<Rightarrow> state" where
  "save_db wid s = s\<lparr>storage := (storage s)(wid := Some (wallet s))\<rparr>"

text \<open>\<open>create_tx\<close> with the \<open>outputs\<close> argument: any failure of the wallet is re-raised as
  \<open>'Failed to create tx ...'\<close>.  Building a transaction does not record it in the
  wallet.\<close>

definition create_tx ::
  "env \<Rightarrow> (string \<times> pyfloat) list \<Rightarrow> pyfloat \<Rightarrow> state \<Rightarrow> error + transaction" where
  "create_tx E outputs f s =
     (case create_transaction E (wallet s) outputs f of
        None \<Rightarrow> Inl CreateTxError
      | Some (i, n) \<Rightarrow> Inr \<lparr>tx_id = i, tx_outputs = outputs, tx_fee = f, tx_size = n\<rparr>)"

text \<open>\<open>get_tx_size\<close>: build the transaction with the fee \<open>0.00000001\<close>, read its estimated
  size and remove it from the loaded wallet again.\<close>

definition get_tx_size ::
  "env \<Rightarrow> (string \<times> pyfloat) list \<Rightarrow> state \<Rightarrow> state \<times> (error + nat)" where
  "get_tx_size E outputs s =
     (case create_tx E outputs float_1em8 s of
        Inl err \<Rightarrow> (s, Inl TxSizeError)
      | Inr tx \<Rightarrow> (s\<lparr>wallet := wallet s - {tx_id tx}\<rparr>, Inr (tx_size tx)))"

text \<open>\<open>async_broadcast\<close>: on success the network holds the transaction; on failure the
  transaction is removed from the loaded wallet and the error re-raised.\<close>

definition async_broadcast :: "env \<Rightarrow> transaction \<Rightarrow> state \<Rightarrow> state \<times> (error + unit)" where
  "async_broadcast E tx s =
     (if broadcast_transaction E tx then (s\<lparr>network := network s @ [tx]\<rparr>, Inr ())
      else (s\<lparr>wallet := wallet s - {tx_id tx}\<rparr>, Inl BroadcastError))"

section \<open>\<open>APICmdUtil\<close>\<close>

text \<open>\<open>_init_cmd_manager\<close> with a wallet id and \<open>network = True\<close>: load the wallet, then
  wait for the connection.\<close>

definition init_cmd_manager ::
  "env \<Rightarrow> nat \<Rightarrow> string \<Rightarrow> state \<Rightarrow> (state \<times> (error + unit)) option" where
  "init_cmd_manager E wid wallet_password s =
     (case load_wallet E wid wallet_password s of
        Inl err \<Rightarrow> Some (s, Inl err)
      | Inr txs \<Rightarrow>
          (case wait_for_connection E (seconds s) of
             None \<Rightarrow> None
           | Some t \<Rightarrow> Some (s\<lparr>wallet := txs, seconds := t\<rparr>, Inr ())))"

text \<open>The four values \<open>_get_tx_details\<close> returns.\<close>

record details =
  this_tx_fee :: pyfloat
  total_fee :: pyfloat
  total_sat_amount :: int
  outputs :: "(string \<times> pyfloat) list"

text \<open>Lines 253 to 256: one output \<open>[tx.address, tx.amount / 1.0e8]\<close> per unsent row.\<close>

fun unsent_outputs :: "request list \<Rightarrow> error + (string \<times> pyfloat) list" where
  "unsent_outputs [] = Inr []"
| "unsent_outputs (tx # txs) =
     (case int_div_float (amount tx) float_1e8 of
        Inl err \<Rightarrow> Inl err
      | Inr x \<Rightarrow>
          (case unsent_outputs txs of
             Inl err \<Rightarrow> Inl err
           | Inr rest \<Rightarrow> Inr ((address tx, x) # rest)))"

text \<open>Line 262: \<open>sat_per_b = (fee_estimates.get(2) / 1000) / 1.0e8\<close>.  The value is not
  used afterwards, but a missing key 2 raises \<open>TypeError\<close>.\<close>

definition sat_per_b :: "(nat \<times> int) list \<Rightarrow> error + pyfloat" where
  "sat_per_b fee_estimates =
     (case map_of fee_estimates 2 of
        None \<Rightarrow> Inl TypeError
      | Some v \<Rightarrow>
          (case int_truediv v 1000 of Inl err \<Rightarrow> Inl err | Inr x \<Rightarrow> fdiv x float_1e8))"

text \<open>Lines 267 and 268: the share of a request of \<open>sat_amount\<close> satoshis in a batch of
  \<open>total_sat_amount\<close>, \<open>(sat_amount / total_sat_amount) * total_fee\<close>, in floats.\<close>

definition proportional_fee :: "int \<Rightarrow> int \<Rightarrow> pyfloat \<Rightarrow> error + pyfloat" where
  "proportional_fee sat_amount total_sat tf =
     (case int_truediv sat_amount total_sat of
        Inl err \<Rightarrow> Inl err
      | Inr tx_proportion \<Rightarrow> Inr (fmul tx_proportion tf))"

text \<open>Lines 265 to 270: \<open>total_fee\<close> in BTC, the share of this request, and the returned
  tuple.\<close>

definition fee_details ::
  "int \<Rightarrow> int \<Rightarrow> int \<Rightarrow> (string \<times> pyfloat) list \<Rightarrow> error + details" where
  "fee_details fee_sat sat_amount total_sat outs =
     (case int_div_float fee_sat float_1e8 of
        Inl err \<Rightarrow> Inl err
      | Inr tf \<Rightarrow>
          (case proportional_fee sat_amount total_sat tf of
             Inl err \<Rightarrow> Inl err
           | Inr f \<Rightarrow>
               Inr \<lparr>this_tx_fee = f, total_fee = tf,
                    total_sat_amount = total_sat, outputs = outs\<rparr>))"

definition get_tx_details ::
  "env \<Rightarrow> nat \<Rightarrow> string \<Rightarrow> pyfloat \<Rightarrow> state \<Rightarrow> (state \<times> (error + details)) option" where
  "get_tx_details E wid addr btc_amount s =
     (case py_int (fmul btc_amount float_1e8) of
        Inl err \<Rightarrow> Some (s, Inl err)
      | Inr sat_amount \<Rightarrow>
          (case unsent_outputs (get_unsent wid (db s)) of
             Inl err \<Rightarrow> Some (s, Inl err)
           | Inr rest \<Rightarrow>
               (case wait_for_fee_estimates E (seconds s) of
                  None \<Rightarrow> None
                | Some t \<Rightarrow>
                    (case sat_per_b (get_fee_estimates E t) of
                       Inl err \<Rightarrow> Some (s\<lparr>seconds := t\<rparr>, Inl err)
                     | Inr spb \<Rightarrow>
                         (case get_tx_size E ((addr, btc_amount) # rest) (s\<lparr>seconds := t\<rparr>) of
                            (s', Inl err) \<Rightarrow> Some (s', Inl err)
                          | (s', Inr total_size) \<Rightarrow>
                              Some (s', fee_details (estimate_fee E t total_size) sat_amount
                                      (sat_amount + sum_list (map amount (get_unsent wid (db s))))
                                      ((addr, btc_amount) # rest)))))))"

text \<open>\<open>presend\<close>: the dry run.  \<open>btc_amount\<close> is the JSON number of the request as a
  Python float, \<open>wallet_id\<close> the identifier of a wallet (the case \<open>wallet_id = None\<close> of
  \<open>_init_cmd_manager\<close> is not modelled).  The result is the state left behind together
  with the returned value or the raised exception; \<open>None\<close> is a call that never
  returns.\<close>

definition presend ::
  "env \<Rightarrow> string \<Rightarrow> pyfloat \<Rightarrow> nat \<Rightarrow> string \<Rightarrow> string \<Rightarrow> state
     \<Rightarrow> (state \<times> (error + pyfloat)) option" where
  "presend E addr btc_amount wid wallet_password api_pw s =
     (case init_cmd_manager E wid wallet_password s of
        None \<Rightarrow> None
      | Some (s0, Inl err) \<Rightarrow> Some (s0, Inl err)
      | Some (s0, Inr u) \<Rightarrow>
          if api_pw \<noteq> api_password E then Some (s0, Inl IncorrectAPIPassword)
          else (case get_tx_details E wid addr btc_amount s0 of
                  None \<Rightarrow> None
                | Some (s1, Inl err) \<Rightarrow> Some (s1, Inl err)
                | Some (s1, Inr d) \<Rightarrow> Some (s1, Inr (this_tx_fee d))))"

text \<open>Lines 294 and 295 of \<open>send\<close>: \<open>batching_threshold\<close> and
  \<open>fee_to_amount_proportion\<close>.\<close>

definition fee_to_amount_proportion :: "details \<Rightarrow> error + pyfloat" where
  "fee_to_amount_proportion d =
     (case py_int (fmul (total_fee d) float_1e8) of
        Inl err \<Rightarrow> Inl err
      | Inr n \<Rightarrow> int_truediv n (total_sat_amount d))"

text \<open>Lines 302 to 312 of \<open>send\<close>: build the transaction for all outputs, record it in the
  wallet, broadcast; on success mark the requests of the wallet, on failure remove the
  transaction from the wallet again and re-raise.\<close>

definition broadcast_batch ::
  "env \<Rightarrow> nat \<Rightarrow> details \<Rightarrow> state \<Rightarrow> state \<times> (error + unit)" where
  "broadcast_batch E wid d s =
     (case create_tx E (outputs d) (total_fee d) s of
        Inl err \<Rightarrow> (s, Inl err)
      | Inr tx \<Rightarrow>
          (case async_broadcast E tx (save_db wid (s\<lparr>wallet := insert (tx_id tx) (wallet s)\<rparr>)) of
             (s', Inl err) \<Rightarrow> (save_db wid (s'\<lparr>wallet := wallet s' - {tx_id tx}\<rparr>), Inl err)
           | (s', Inr u) \<Rightarrow>
               (s'\<lparr>db := update_transactions (fee_share E (total_fee d) (total_sat_amount d))
                            wid (tx_id tx) (db s')\<rparr>, Inr ())))"

text \<open>Lines 294, 295 and the test of line 301 of \<open>send\<close>: the two ratios are computed
  before the request is inserted, and compared after.\<close>

definition batching_decision :: "env \<Rightarrow> details \<Rightarrow> error + bool" where
  "batching_decision E d =
     (case int_truediv (batching_threshold E) 100 of
        Inl err \<Rightarrow> Inl err
      | Inr threshold \<Rightarrow>
          (case fee_to_amount_proportion d of
             Inl err \<Rightarrow> Inl err
           | Inr proportion \<Rightarrow> Inr (fge threshold proportion)))"

text \<open>\<open>send\<close>: the request is inserted after the ratios are computed and before the
  batching decision is acted on.\<close>

definition send ::
  "env \<Rightarrow> string \<Rightarrow> pyfloat \<Rightarrow> nat \<Rightarrow> string \<Rightarrow> string \<Rightarrow> state
     \<Rightarrow> (state \<times> (error + pyfloat \<times> nat)) option" where
  "send E addr btc_amount wid wallet_password api_pw s =
     (case init_cmd_manager E wid wallet_password s of
        None \<Rightarrow> None
      | Some (s0, Inl err) \<Rightarrow> Some (s0, Inl err)
      | Some (s0, Inr u) \<Rightarrow>
          if api_pw \<noteq> api_password E then Some (s0, Inl IncorrectAPIPassword)
          else (case get_tx_details E wid addr btc_amount s0 of
                  None \<Rightarrow> None
                | Some (s1, Inl err) \<Rightarrow> Some (s1, Inl err)
                | Some (s1, Inr d) \<Rightarrow>
                    (case batching_decision E d of
                       Inl err \<Rightarrow> Some (s1, Inl err)
                     | Inr broadcast_now \<Rightarrow>
                         (case py_int (fmul btc_amount float_1e8) of
                            Inl err \<Rightarrow> Some (s1, Inl err)
                          | Inr sat \<Rightarrow>
                              (case insert_transaction addr sat wid (clock_ms E (seconds s1)) (db s1) of
                                 (rows, obj) \<Rightarrow>
                                   if broadcast_now
                                   then (case broadcast_batch E wid d (s1\<lparr>db := rows\<rparr>) of
                                           (s2, Inl err) \<Rightarrow> Some (s2, Inl err)
                                         | (s2, Inr u) \<Rightarrow> Some (s2, Inr (this_tx_fee d, sr_id obj)))
                                   else Some (s1\<lparr>db := rows\<rparr>, Inr (this_tx_fee d, sr_id obj)))))))"

text \<open>\<open>get_send_history\<close>: no wallet and no network are involved.\<close>

definition get_send_history :: "nat \<Rightarrow> state \<Rightarrow> (nat \<times> nat \<times> string) list" where
  "get_send_history limit s =
     map (\<lambda>tx. (timestamp_ms tx, sr_id tx, if is_sent tx then ''sent'' else ''queued''))
       (get_all_txs limit (db s))"

section \<open>Sequences of calls\<close>

text \<open>One completed call of \<open>send\<close> or \<open>presend\<close>, with any arguments and any behaviour of
  the surroundings, takes the state \<open>s\<close> to \<open>s'\<close>.  (\<open>get_send_history\<close> changes
  nothing.)\<close>

inductive api_call :: "state \<Rightarrow> state \<Rightarrow> bool" where
  call_send: "send E addr btc wid wpw pw s = Some (s', r) \<Longrightarrow> api_call s s'"
| call_presend: "presend E addr btc wid wpw pw s = Some (s', r') \<Longrightarrow> api_call s s'"

text \<open>How one row may differ after a call: not at all, or a queued row has received a
  \<open>txid\<close> and a fee.\<close>

definition row_step :: "request \<Rightarrow> request \<Rightarrow> bool" where
  "row_step r r' = (r' = r \<or> (is_queued r \<and> (\<exists>x f. r' = r\<lparr>txid := Some x, fee := Some f\<rparr>)))"

definition rows_step :: "request list \<Rightarrow> request list \<Rightarrow> bool" where
  "rows_step rows rows' =
     (length rows \<le> length rows' \<and> (\<forall>i < length rows. row_step (rows ! i) (rows' ! i)))"

section \<open>Concrete surroundings and states\<close>

text \<open>A wallet 7 whose file exists, with password \<open>wpw\<close>; the network connects after two
  seconds and has fee estimates after three; the wallet builds every transaction (250
  bytes); the fee estimate and the answer of the network to a broadcast are parameters.
  The stored fee share is the proportional one of \<open>proportional_fee\<close>.\<close>

definition env_of :: "int \<Rightarrow> bool \<Rightarrow> env" where
  "env_of fee_sat accepted =
     \<lparr>api_password = ''secret'', batching_threshold = 5,
      decrypt = (\<lambda>w p. p = ''wpw''),
      is_connected = (\<lambda>t. 2 \<le> t),
      get_fee_estimates = (\<lambda>t. if 3 \<le> t then [(2, 20000)] else []),
      create_transaction = (\<lambda>txs outs f. Some (if f = float_1em8 then ''dry'' else ''tx1'', 250)),
      estimate_fee = (\<lambda>t n. fee_sat),
      broadcast_transaction = (\<lambda>tx. accepted),
      fee_share = (\<lambda>tf total_sat r.
         case proportional_fee (amount r) total_sat tf of Inl err \<Rightarrow> NaN | Inr f \<Rightarrow> f),
      clock_ms = (\<lambda>t. 1000 * t)\<rparr>"

text \<open>Request A: 100000 satoshis queued for wallet 7.\<close>

definition request_A :: request where
  "request_A = \<lparr>sr_id = 41, address = ''addrA'', amount = 100000, wallet_id = 7,
                 txid = None, fee = None, timestamp_ms = 0\<rparr>"

definition state_A :: state where
  "state_A = \<lparr>db = [request_A], storage = [7 \<mapsto> {}],
               wallet = {}, network = [], seconds = 0\<rparr>"

definition state_empty :: state where
  "state_empty = \<lparr>db = [], storage = [7 \<mapsto> {}],
               wallet = {}, network = [], seconds = 0\<rparr>"

text \<open>Request B, 0.002 BTC, as inserted by \<open>send\<close> after A, and the transaction that
  pays both.\<close>

definition request_B :: request where
  "request_B = \<lparr>sr_id = 42, address = ''addrB'', amount = 200000, wallet_id = 7,
                 txid = None, fee = None, timestamp_ms = 3000\<rparr>"

definition tx_A_B :: transaction where
  "tx_A_B = \<lparr>tx_id = ''tx1'',
     tx_outputs = [(''addrB'', to_float 2 1000), (''addrA'', Finite 4611686018427388 (- 62))],
     tx_fee = Finite 5902958103587057 (- 69), tx_size = 250\<rparr>"

text \<open>The state after \<open>send\<close> has broadcast A and B together.\<close>

definition state_A_B :: state where
  "state_A_B =
     \<lparr>db = [request_A\<lparr>txid := Some ''tx1'', fee := Some (Finite 7870610804782742 (- 71))\<rparr>,
            request_B\<lparr>txid := Some ''tx1'', fee := Some (Finite 7870610804782742 (- 70))\<rparr>],
      storage = [7 \<mapsto> {''tx1''}], wallet = {''tx1''}, network = [tx_A_B], seconds = 3\<rparr>"




text \<open>Request Z, 0 BTC, as inserted by \<open>send\<close> after A with an estimated fee of 20000
  satoshis, and the state after \<open>send\<close> has queued it.\<close>

definition request_Z :: request where
  "request_Z = \<lparr>sr_id = 42, address = ''addrZ'', amount = 0, wallet_id = 7,
                 txid = None, fee = None, timestamp_ms = 3000\<rparr>"

definition state_A_Z :: state where
  "state_A_Z = \<lparr>db = [request_A, request_Z], storage = [7 \<mapsto> {}], wallet = {},
                 network = [], seconds = 3\<rparr>"

section \<open>The decision rule of the specification\<close>


text \<open>The same surroundings with a network that never has fee estimates.\<close>

definition env_without_fee_estimates :: env where
  "env_without_fee_estimates = (env_of 1000 True)\<lparr>get_fee_estimates := (\<lambda>t. [])\<rparr>"

text \<open>Another state with the same unsent request of wallet 7 under another identifier
  and timestamp, a request of another wallet, a sent request, another loaded wallet and
  another history of the network.\<close>

definition state_A_other :: state where
  "state_A_other =
     \<lparr>db = [\<lparr>sr_id = 3, address = ''other'', amount = 5, wallet_id = 8,
               txid = None, fee = None, timestamp_ms = 10\<rparr>,
             \<lparr>sr_id = 9, address = ''addrA'', amount = 100000, wallet_id = 7,
               txid = None, fee = None, timestamp_ms = 77\<rparr>,
             \<lparr>sr_id = 10, address = ''old'', amount = 12345, wallet_id = 7,
               txid = Some ''tx0'', fee = None, timestamp_ms = 5\<rparr>],
      storage = [7 \<mapsto> {}, 8 \<mapsto> {''tx9''}], wallet = {''junk''}, network = [tx_A_B],
      seconds = 0\<rparr>"

text \<open>Request C, 0.29 BTC, sent alone from an empty table with an estimated fee of 1000
  satoshis: the row, the transaction and the state after \<open>send\<close>.\<close>

definition request_C :: request where
  "request_C = \<lparr>sr_id = 1, address = ''addrC'', amount = 28999999, wallet_id = 7,
                 txid = Some ''tx1'', fee = Some (Finite 5902958103587057 (- 69)),
                 timestamp_ms = 3000\<rparr>"

definition tx_C :: transaction where
  "tx_C = \<lparr>tx_id = ''tx1'', tx_outputs = [(''addrC'', to_float 29 100)],
            tx_fee = Finite 5902958103587057 (- 69), tx_size = 250\<rparr>"

definition state_C :: state where
  "state_C = \<lparr>db = [request_C], storage = [7 \<mapsto> {''tx1''}], wallet = {''tx1''},
               network = [tx_C], seconds = 3\<rparr>"

declare wait_for_connection.simps [code]
declare wait_for_fee_estimates.simps [code]

section \<open>The polling loops\<close>

text \<open>A polling loop returns exactly when its condition holds at some later time, and
  then at the first such time; otherwise it never returns.\<close>

lemma wait_for_connection_Some:
  assumes "wait_for_connection E t = Some t'"
  shows "t \<le> t' \<and> is_connected E t' \<and> (\<forall>k. t \<le> k \<and> k < t' \<longrightarrow> \<not> is_connected E k)"
  using assms
proof (induction rule: wait_for_connection.raw_induct [rotated 1, consumes 1])
  case (1 f E t t')
  show ?case
  proof (cases "is_connected E t")
    case True
    with 1(2) show ?thesis by auto
  next
    case False
    with 1(2) have "f E (Suc t) = Some t'" by simp
    from 1(1) [OF this] False show ?thesis
      by (metis Suc_leD le_antisym not_less_eq_eq)
  qed
qed

lemma wait_for_connection_reached:
  "is_connected E (t + n) \<Longrightarrow> \<exists>t'. wait_for_connection E t = Some t'"
proof (induction n arbitrary: t)
  case 0
  then show ?case by (subst wait_for_connection.simps) simp
next
  case (Suc n)
  then have "\<exists>t'. wait_for_connection E (Suc t) = Some t'" by simp
  then show ?case by (subst wait_for_connection.simps) simp
qed

lemma wait_for_connection_never:
  assumes "\<forall>k. t \<le> k \<longrightarrow> \<not> is_connected E k"
  shows "wait_for_connection E t = None"
proof (cases "wait_for_connection E t")
  case None
  then show ?thesis .
next
  case (Some t')
  from wait_for_connection_Some [OF this] assms show ?thesis by blast
qed

lemma wait_for_fee_estimates_Some:
  assumes "wait_for_fee_estimates E t = Some t'"
  shows "t \<le> t' \<and> get_fee_estimates E t' \<noteq> []
    \<and> (\<forall>k. t \<le> k \<and> k < t' \<longrightarrow> get_fee_estimates E k = [])"
  using assms
proof (induction rule: wait_for_fee_estimates.raw_induct [rotated 1, consumes 1])
  case (1 f E t t')
  show ?case
  proof (cases "get_fee_estimates E t \<noteq> []")
    case True
    with 1(2) show ?thesis by auto
  next
    case False
    with 1(2) have "f E (Suc t) = Some t'" by simp
    from 1(1) [OF this] False show ?thesis
      by (metis Suc_leD le_antisym not_less_eq_eq)
  qed
qed

lemma wait_for_fee_estimates_reached:
  "get_fee_estimates E (t + n) \<noteq> [] \<Longrightarrow> \<exists>t'. wait_for_fee_estimates E t = Some t'"
proof (induction n arbitrary: t)
  case 0
  then show ?case by (subst wait_for_fee_estimates.simps) simp
next
  case (Suc n)
  then have "\<exists>t'. wait_for_fee_estimates E (Suc t) = Some t'" by simp
  then show ?case by (subst wait_for_fee_estimates.simps) simp
qed

lemma wait_for_fee_estimates_never:
  assumes "\<forall>k. t \<le> k \<longrightarrow> get_fee_estimates E k = []"
  shows "wait_for_fee_estimates E t = None"
proof (cases "wait_for_fee_estimates E t")
  case None
  then show ?thesis .
next
  case (Some t')
  from wait_for_fee_estimates_Some [OF this] assms show ?thesis by blast
qed

lemma wait_for_connection_first:
  assumes "is_connected E t'" and "t \<le> t'" and "\<forall>k. t \<le> k \<and> k < t' \<longrightarrow> \<not> is_connected E k"
  shows "wait_for_connection E t = Some t'"
proof -
  from assms(1,2) have "is_connected E (t + (t' - t))" by simp
  from wait_for_connection_reached [OF this] obtain u where u: "wait_for_connection E t = Some u"
    by blast
  from wait_for_connection_Some [OF u] assms have "u = t'"
    by (metis linorder_neqE_nat)
  with u show ?thesis by simp
qed

lemma wait_for_fee_estimates_first:
  assumes "get_fee_estimates E t' \<noteq> []" and "t \<le> t'"
    and "\<forall>k. t \<le> k \<and> k < t' \<longrightarrow> get_fee_estimates E k = []"
  shows "wait_for_fee_estimates E t = Some t'"
proof -
  from assms(1,2) have "get_fee_estimates E (t + (t' - t)) \<noteq> []" by simp
  from wait_for_fee_estimates_reached [OF this] obtain u
    where u: "wait_for_fee_estimates E t = Some u"
    by blast
  from wait_for_fee_estimates_Some [OF u] assms have "u = t'"
    by (metis linorder_neqE_nat)
  with u show ?thesis by simp
qed

lemma wait_for_connection_cong:
  assumes "is_connected E = is_connected E'"
  shows "wait_for_connection E t = wait_for_connection E' t"
proof (cases "wait_for_connection E t")
  case None
  have "\<forall>k. t \<le> k \<longrightarrow> \<not> is_connected E k"
  proof (intro allI impI notI)
    fix k assume "t \<le> k" and "is_connected E k"
    then have "is_connected E (t + (k - t))" by simp
    from wait_for_connection_reached [OF this] None show False by simp
  qed
  with assms have "\<forall>k. t \<le> k \<longrightarrow> \<not> is_connected E' k" by simp
  from wait_for_connection_never [OF this] None show ?thesis by simp
next
  case (Some t')
  from wait_for_connection_Some [OF Some] assms
  have "is_connected E' t'" "t \<le> t'" "\<forall>k. t \<le> k \<and> k < t' \<longrightarrow> \<not> is_connected E' k"
    by simp_all
  from wait_for_connection_first [OF this] Some show ?thesis by simp
qed

lemma wait_for_fee_estimates_cong:
  assumes "get_fee_estimates E = get_fee_estimates E'"
  shows "wait_for_fee_estimates E t = wait_for_fee_estimates E' t"
proof (cases "wait_for_fee_estimates E t")
  case None
  have "\<forall>k. t \<le> k \<longrightarrow> get_fee_estimates E k = []"
  proof (intro allI impI, rule ccontr)
    fix k assume "t \<le> k" and "get_fee_estimates E k \<noteq> []"
    then have "get_fee_estimates E (t + (k - t)) \<noteq> []" by simp
    from wait_for_fee_estimates_reached [OF this] None show False by simp
  qed
  with assms have "\<forall>k. t \<le> k \<longrightarrow> get_fee_estimates E' k = []" by simp
  from wait_for_fee_estimates_never [OF this] None show ?thesis by simp
next
  case (Some t')
  from wait_for_fee_estimates_Some [OF Some] assms
  have "get_fee_estimates E' t' \<noteq> []" "t \<le> t'"
    "\<forall>k. t \<le> k \<and> k < t' \<longrightarrow> get_fee_estimates E' k = []"
    by simp_all
  from wait_for_fee_estimates_first [OF this] Some show ?thesis by simp
qed

section \<open>Evaluating float operations\<close>

lemma to_float_eval:
  assumes "p \<noteq> 0" and "ulp_exponent \<bar>p\<bar> \<bar>q\<bar> = e" and "round_at \<bar>p\<bar> \<bar>q\<bar> e = m"
    and "pack ((p < 0) \<noteq> (q < 0)) m e = r"
  shows "to_float p q = r"
  using assms by (simp add: to_float_def)

lemmas ulp_eval = ulp_exponent_def floor_log2_def log2_adjust_def bit_length.simps
lemmas round_eval = round_at_def round_half_even_def half_even_def

lemma float_1e8_eq: "float_1e8 = Finite 6710886400000000 (- 26)"
  unfolding float_1e8_def
  by (rule to_float_eval [where e = "- 26" and m = 6710886400000000])
    (simp_all add: ulp_eval round_eval pack_def)

lemma float_1em8_eq: "float_1em8 = Finite 6044629098073146 (- 79)"
  unfolding float_1em8_def
  by (rule to_float_eval [where e = "- 79" and m = 6044629098073146])
    (simp_all add: ulp_eval round_eval pack_def)

lemma to_float_fact_1: "to_float 2 1000 = Finite 4611686018427388 (- 61)"
  by (rule to_float_eval [where e = "- 61" and m = "4611686018427388"])
    (simp_all add: ulp_eval round_eval pack_def)

lemma to_float_fact_2: "to_float 30948500982134507516723200000000 154742504910672534362390528 = Finite 6871947673600000 (- 35)"
  by (rule to_float_eval [where e = "- 35" and m = "6871947673600000"])
    (simp_all add: ulp_eval round_eval pack_def)

lemma to_float_fact_3: "to_float 100000 1 = Finite 6871947673600000 (- 36)"
  by (rule to_float_eval [where e = "- 36" and m = "6871947673600000"])
    (simp_all add: ulp_eval round_eval pack_def)

lemma to_float_fact_4: "to_float 6871947673600000 6871947673600000000 = Finite 4611686018427388 (- 62)"
  by (rule to_float_eval [where e = "- 62" and m = "4611686018427388"])
    (simp_all add: ulp_eval round_eval pack_def)

lemma to_float_fact_5: "to_float 20000 1000 = Finite 5629499534213120 (- 48)"
  by (rule to_float_eval [where e = "- 48" and m = "5629499534213120"])
    (simp_all add: ulp_eval round_eval pack_def)

lemma to_float_fact_6: "to_float 5629499534213120 28147497671065600000000 = Finite 7555786372591432 (- 75)"
  by (rule to_float_eval [where e = "- 75" and m = "7555786372591432"])
    (simp_all add: ulp_eval round_eval pack_def)

lemma to_float_fact_7: "to_float 1000 1 = Finite 8796093022208000 (- 43)"
  by (rule to_float_eval [where e = "- 43" and m = "8796093022208000"])
    (simp_all add: ulp_eval round_eval pack_def)

lemma to_float_fact_8: "to_float 8796093022208000 879609302220800000000 = Finite 5902958103587057 (- 69)"
  by (rule to_float_eval [where e = "- 69" and m = "5902958103587057"])
    (simp_all add: ulp_eval round_eval pack_def)

lemma to_float_fact_9: "to_float 200000 300000 = Finite 6004799503160661 (- 53)"
  by (rule to_float_eval [where e = "- 53" and m = "6004799503160661"])
    (simp_all add: ulp_eval round_eval pack_def)

lemma to_float_fact_10: "to_float 35446079887597757542713071164677 5316911983139663491615228241121378304 = Finite 7870610804782742 (- 70)"
  by (rule to_float_eval [where e = "- 70" and m = "7870610804782742"])
    (simp_all add: ulp_eval round_eval pack_def)

lemma to_float_fact_11: "to_float 100000 300000 = Finite 6004799503160661 (- 54)"
  by (rule to_float_eval [where e = "- 54" and m = "6004799503160661"])
    (simp_all add: ulp_eval round_eval pack_def)

lemma to_float_fact_12: "to_float 35446079887597757542713071164677 10633823966279326983230456482242756608 = Finite 7870610804782742 (- 71)"
  by (rule to_float_eval [where e = "- 71" and m = "7870610804782742"])
    (simp_all add: ulp_eval round_eval pack_def)

lemma to_float_fact_13: "to_float 5 100 = Finite 7205759403792794 (- 57)"
  by (rule to_float_eval [where e = "- 57" and m = "7205759403792794"])
    (simp_all add: ulp_eval round_eval pack_def)

lemma to_float_fact_14: "to_float 39614081257132172037324800000000 39614081257132168796771975168 = Finite 8796093022208001 (- 43)"
  by (rule to_float_eval [where e = "- 43" and m = "8796093022208001"])
    (simp_all add: ulp_eval round_eval pack_def)

lemma to_float_fact_15: "to_float 1000 300000 = Finite 7686143364045647 (- 61)"
  by (rule to_float_eval [where e = "- 61" and m = "7686143364045647"])
    (simp_all add: ulp_eval round_eval pack_def)

lemma to_float_fact_16: "to_float 20000 1 = Finite 5497558138880000 (- 38)"
  by (rule to_float_eval [where e = "- 38" and m = "5497558138880000"])
    (simp_all add: ulp_eval round_eval pack_def)

lemma to_float_fact_17: "to_float 5497558138880000 27487790694400000000 = Finite 7378697629483821 (- 65)"
  by (rule to_float_eval [where e = "- 65" and m = "7378697629483821"])
    (simp_all add: ulp_eval round_eval pack_def)


lemma to_float_fact_19: "to_float 49517601571415213368934400000000 2475880078570760549798248448 = Finite 5497558138880000 (- 38)"
  by (rule to_float_eval [where e = "- 38" and m = "5497558138880000"])
    (simp_all add: ulp_eval round_eval pack_def)


lemma to_float_fact_21: "to_float 29 100 = Finite 5224175567749775 (- 54)"
  by (rule to_float_eval [where e = "- 54" and m = "5224175567749775"])
    (simp_all add: ulp_eval round_eval pack_def)

lemma to_float_fact_22: "to_float 35058848768824243650560000000000 1208925819614629174706176 = Finite 7784628223999999 (- 28)"
  by (rule to_float_eval [where e = "- 28" and m = "7784628223999999"])
    (simp_all add: ulp_eval round_eval pack_def)

lemma to_float_fact_23: "to_float 28999999 28999999 = Finite 4503599627370496 (- 52)"
  by (rule to_float_eval [where e = "- 52" and m = "4503599627370496"])
    (simp_all add: ulp_eval round_eval pack_def)

lemma to_float_fact_24: "to_float 26584559915698319632774329270272 2658455991569831745807614120560689152 = Finite 5902958103587057 (- 69)"
  by (rule to_float_eval [where e = "- 69" and m = "5902958103587057"])
    (simp_all add: ulp_eval round_eval pack_def)

lemma to_float_fact_25: "to_float 1000 28999999 = Finite 5088757161325296 (- 67)"
  by (rule to_float_eval [where e = "- 67" and m = "5088757161325296"])
    (simp_all add: ulp_eval round_eval pack_def)

lemma sat_of_0002:
  "py_int (fmul (to_float 2 1000) float_1e8) = Inr 200000"
  by (simp add: to_float_fact_1 float_1e8_eq to_float_fact_2)

lemma btc_of_100000:
  "int_div_float 100000 float_1e8 = Inr (Finite 4611686018427388 (- 62))"
  by (simp add: int_div_float_def float_of_int_def to_float_fact_3 float_1e8_eq to_float_fact_4)

lemma sat_per_b_20000:
  "sat_per_b [(2, 20000)] = Inr (Finite 7555786372591432 (- 75))"
  by (simp add: sat_per_b_def int_truediv_def to_float_fact_5 float_1e8_eq to_float_fact_6)

lemma btc_of_1000:
  "int_div_float 1000 float_1e8 = Inr (Finite 5902958103587057 (- 69))"
  by (simp add: int_div_float_def float_of_int_def to_float_fact_7 float_1e8_eq to_float_fact_8)

lemma share_200000_of_300000:
  "proportional_fee 200000 300000 (Finite 5902958103587057 (- 69)) = Inr (Finite 7870610804782742 (- 70))"
  by (simp add: proportional_fee_def int_truediv_def to_float_fact_9 to_float_fact_10)

lemma share_100000_of_300000:
  "proportional_fee 100000 300000 (Finite 5902958103587057 (- 69)) = Inr (Finite 7870610804782742 (- 71))"
  by (simp add: proportional_fee_def int_truediv_def to_float_fact_11 to_float_fact_12)

lemma threshold_5_percent:
  "int_truediv 5 100 = Inr (Finite 7205759403792794 (- 57))"
  by (simp add: int_truediv_def to_float_fact_13)

lemma ratio_1000_of_300000:
  "fee_to_amount_proportion \<lparr>this_tx_fee = f, total_fee = Finite 5902958103587057 (- 69), total_sat_amount = 300000, outputs = outs\<rparr> = Inr (Finite 7686143364045647 (- 61))"
  by (simp add: fee_to_amount_proportion_def float_1e8_eq to_float_fact_14 int_truediv_def to_float_fact_15)

lemma btc_of_20000:
  "int_div_float 20000 float_1e8 = Inr (Finite 7378697629483821 (- 65))"
  by (simp add: int_div_float_def float_of_int_def to_float_fact_16 float_1e8_eq to_float_fact_17)



lemma sat_of_029:
  "py_int (fmul (to_float 29 100) float_1e8) = Inr 28999999"
  by (simp add: to_float_fact_21 float_1e8_eq to_float_fact_22)

lemma share_whole:
  "proportional_fee 28999999 28999999 (Finite 5902958103587057 (- 69)) = Inr (Finite 5902958103587057 (- 69))"
  by (simp add: proportional_fee_def int_truediv_def to_float_fact_23 to_float_fact_24)

lemma ratio_1000_of_28999999:
  "fee_to_amount_proportion \<lparr>this_tx_fee = f, total_fee = Finite 5902958103587057 (- 69), total_sat_amount = 28999999, outputs = outs\<rparr> = Inr (Finite 5088757161325296 (- 67))"
  by (simp add: fee_to_amount_proportion_def float_1e8_eq to_float_fact_14 int_truediv_def to_float_fact_25)

lemma to_float_fact_26: "to_float 20000 100000 = Finite 7205759403792794 (- 55)"
  by (rule to_float_eval [where e = "- 55" and m = "7205759403792794"])
    (simp_all add: ulp_eval round_eval pack_def)

lemma sat_of_zero:
  "py_int (fmul (Finite 0 0) float_1e8) = Inr 0"
  by (simp add: float_1e8_eq to_float_def)

lemma share_zero_of_100000:
  "proportional_fee 0 100000 (Finite 7378697629483821 (- 65)) = Inr (Finite 0 0)"
  by (simp add: proportional_fee_def int_truediv_def to_float_def)

lemma ratio_20000_of_100000:
  "fee_to_amount_proportion \<lparr>this_tx_fee = f, total_fee = Finite 7378697629483821 (- 65), total_sat_amount = 100000, outputs = outs\<rparr> = Inr (Finite 7205759403792794 (- 55))"
  by (simp add: fee_to_amount_proportion_def float_1e8_eq to_float_fact_19 int_truediv_def to_float_fact_26)

section \<open>The concrete surroundings, evaluated\<close>

lemma state_A_fields:
  "db state_A = [request_A]" "storage state_A = [7 \<mapsto> {}]"
  "wallet state_A = {}" "network state_A = []" "seconds state_A = 0"
  by (simp_all add: state_A_def)

lemma state_empty_fields:
  "db state_empty = []" "storage state_empty = [7 \<mapsto> {}]"
  "wallet state_empty = {}" "network state_empty = []" "seconds state_empty = 0"
  by (simp_all add: state_empty_def)

lemma request_A_fields:
  "sr_id request_A = 41" "address request_A = ''addrA''" "amount request_A = 100000"
  "wallet_id request_A = 7" "txid request_A = None" "fee request_A = None"
  "timestamp_ms request_A = 0"
  by (simp_all add: request_A_def)

lemma env_of_fields:
  "api_password (env_of fee_sat accepted) = ''secret''"
  "batching_threshold (env_of fee_sat accepted) = 5"
  "decrypt (env_of fee_sat accepted) w p = (p = ''wpw'')"
  "is_connected (env_of fee_sat accepted) t = (2 \<le> t)"
  "get_fee_estimates (env_of fee_sat accepted) t = (if 3 \<le> t then [(2, 20000)] else [])"
  "create_transaction (env_of fee_sat accepted) txs outs f =
     Some (if f = float_1em8 then ''dry'' else ''tx1'', 250)"
  "estimate_fee (env_of fee_sat accepted) t n = fee_sat"
  "broadcast_transaction (env_of fee_sat accepted) tx = accepted"
  "fee_share (env_of fee_sat accepted) tf total_sat r =
     (case proportional_fee (amount r) total_sat tf of Inl err \<Rightarrow> NaN | Inr f \<Rightarrow> f)"
  "clock_ms (env_of fee_sat accepted) t = 1000 * t"
  by (simp_all add: env_of_def)

lemma env_of_connects: "wait_for_connection (env_of fee_sat accepted) 0 = Some 2"
  by (rule wait_for_connection_first) (simp_all add: env_of_fields)

lemma env_of_fee_estimates: "wait_for_fee_estimates (env_of fee_sat accepted) 2 = Some 3"
  by (rule wait_for_fee_estimates_first) (auto simp: env_of_fields)

lemma init_state_A:
  "init_cmd_manager (env_of fee_sat accepted) 7 ''wpw'' state_A
     = Some (state_A\<lparr>wallet := {}, seconds := 2\<rparr>, Inr ())"
  by (simp add: init_cmd_manager_def load_wallet_def env_of_connects state_A_fields env_of_fields)

lemma unsent_A: "get_unsent 7 [request_A] = [request_A]"
  by (simp add: get_unsent_def is_queued_def request_A_fields)

lemma details_A_B:
  "get_tx_details (env_of 1000 accepted) 7 ''addrB'' (to_float 2 1000) (state_A\<lparr>wallet := {}, seconds := 2\<rparr>)
    = Some (state_A\<lparr>wallet := {}, seconds := 3\<rparr>,
        Inr \<lparr>this_tx_fee = Finite 7870610804782742 (- 70),
             total_fee = Finite 5902958103587057 (- 69),
             total_sat_amount = 300000,
             outputs = [(''addrB'', to_float 2 1000), (''addrA'', Finite 4611686018427388 (- 62))]\<rparr>)"
  by (simp add: get_tx_details_def sat_of_0002 state_A_fields unsent_A request_A_fields
      btc_of_100000 env_of_fee_estimates env_of_fields sat_per_b_20000 get_tx_size_def create_tx_def
      fee_details_def btc_of_1000 share_200000_of_300000)

section \<open>What a call leaves unchanged\<close>

lemma init_cmd_manager_frame:
  assumes "init_cmd_manager E wid wpw s = Some (s', r)"
  shows "db s' = db s \<and> storage s' = storage s \<and> network s' = network s"
  using assms by (auto simp: init_cmd_manager_def split: sum.splits option.splits)

lemma get_tx_size_frame:
  assumes "get_tx_size E outs s = (s', r)"
  shows "db s' = db s \<and> storage s' = storage s \<and> network s' = network s \<and> seconds s' = seconds s"
  using assms by (auto simp: get_tx_size_def split: sum.splits)

lemma get_tx_details_frame:
  assumes "get_tx_details E wid addr btc s = Some (s', r)"
  shows "db s' = db s \<and> storage s' = storage s \<and> network s' = network s"
  using assms
  by (auto simp: get_tx_details_def split: sum.splits option.splits prod.splits
      dest!: get_tx_size_frame)

lemma presend_frame:
  assumes "presend E addr btc wid wpw pw s = Some (s', r)"
  shows "db s' = db s \<and> storage s' = storage s \<and> network s' = network s"
  using assms
  by (auto simp: presend_def split: option.splits prod.splits sum.splits if_splits
      dest!: init_cmd_manager_frame get_tx_details_frame)

section \<open>The request table under \<open>send\<close>\<close>

lemma insert_transaction_row:
  assumes "insert_transaction addr sat wid now rows = (rows', obj)"
  shows "rows' = rows @ [obj] \<and> is_queued obj \<and> sr_id obj = fresh_sr_id rows
    \<and> address obj = addr \<and> amount obj = sat \<and> wallet_id obj = wid"
  using assms by (auto simp: insert_transaction_def is_queued_def Let_def)

lemma update_transactions_length [simp]:
  "length (update_transactions share wid x rows) = length rows"
  by (simp add: update_transactions_def)

lemma update_transactions_nth:
  assumes "i < length rows"
  shows "update_transactions share wid x rows ! i =
    (if wallet_id (rows ! i) = wid \<and> is_queued (rows ! i)
     then (rows ! i)\<lparr>txid := Some x, fee := Some (share (rows ! i))\<rparr> else rows ! i)"
  using assms by (simp add: update_transactions_def)

lemma broadcast_batch_db:
  assumes "broadcast_batch E wid d s = (s', r)"
  shows "(r = Inr () \<and> (\<exists>tx. create_tx E (outputs d) (total_fee d) s = Inr tx
            \<and> broadcast_transaction E tx
            \<and> network s' = network s @ [tx]
            \<and> db s' = update_transactions (fee_share E (total_fee d) (total_sat_amount d))
                         wid (tx_id tx) (db s)))
       \<or> ((\<exists>e. r = Inl e) \<and> db s' = db s \<and> network s' = network s)"
  using assms
  by (auto simp: broadcast_batch_def async_broadcast_def save_db_def
      split: sum.splits prod.splits if_splits)
lemma rows_step_refl: "rows_step rows rows"
  by (simp add: rows_step_def row_step_def)

lemma rows_step_append: "rows_step rows (rows @ more_rows)"
  by (simp add: rows_step_def row_step_def nth_append)

lemma rows_step_update: "rows_step rows (update_transactions share wid x rows)"
  by (auto simp: rows_step_def row_step_def update_transactions_nth)

lemma rows_step_append_update:
  "rows_step rows (update_transactions share wid x (rows @ more_rows))"
  by (auto simp: rows_step_def row_step_def update_transactions_nth nth_append)

lemma send_rows_step:
  assumes "send E addr btc wid wpw pw s = Some (s', r)"
  shows "rows_step (db s) (db s')"
proof -
  from assms show ?thesis
    by (auto simp: send_def rows_step_refl rows_step_append rows_step_append_update
        split: option.splits prod.splits sum.splits if_splits
        dest!: init_cmd_manager_frame get_tx_details_frame insert_transaction_row
               broadcast_batch_db)
qed

lemma decision_A_B:
  "batching_decision (env_of fee_sat accepted)
     \<lparr>this_tx_fee = f, total_fee = Finite 5902958103587057 (- 69),
      total_sat_amount = 300000, outputs = outs\<rparr> = Inr True"
  by (simp add: batching_decision_def env_of_fields threshold_5_percent ratio_1000_of_300000)

lemma send_A_B_ok:
  "send (env_of 1000 True) ''addrB'' (to_float 2 1000) 7 ''wpw'' ''secret'' state_A
    = Some (\<lparr>db = [request_A\<lparr>txid := Some ''tx1'', fee := Some (Finite 7870610804782742 (- 71))\<rparr>,
                    request_B\<lparr>txid := Some ''tx1'', fee := Some (Finite 7870610804782742 (- 70))\<rparr>],
             storage = [7 \<mapsto> {''tx1''}], wallet = {''tx1''}, network = [tx_A_B], seconds = 3\<rparr>,
            Inr (Finite 7870610804782742 (- 70), 42))"
  apply (simp add: send_def init_state_A env_of_fields details_A_B decision_A_B sat_of_0002)
  apply (simp add: insert_transaction_def fresh_sr_id_def state_A_fields request_A_fields Let_def)
  apply (simp add: broadcast_batch_def create_tx_def env_of_fields float_1em8_eq async_broadcast_def
      save_db_def state_A_fields update_transactions_def is_queued_def request_A_fields
     share_200000_of_300000 share_100000_of_300000 tx_A_B_def request_B_def state_A_def)
  done

lemma presend_A_B:
  "presend (env_of 1000 accepted) ''addrB'' (to_float 2 1000) 7 ''wpw'' ''secret'' state_A
    = Some (state_A\<lparr>wallet := {}, seconds := 3\<rparr>, Inr (Finite 7870610804782742 (- 70)))"
  by (simp add: presend_def init_state_A env_of_fields details_A_B)

lemma send_wrong_password:
  "send (env_of 1000 True) ''addrB'' (to_float 2 1000) 7 ''wpw'' ''guess'' state_A
     = Some (state_A\<lparr>wallet := {}, seconds := 2\<rparr>, Inl IncorrectAPIPassword)"
  by (simp add: send_def init_state_A env_of_fields)

lemma init_cmd_manager_returns:
  assumes "seconds s \<le> k" and "is_connected E k"
  shows "\<exists>s' r. init_cmd_manager E wid wpw s = Some (s', r)"
proof -
  from assms have "is_connected E (seconds s + (k - seconds s))" by simp
  from wait_for_connection_reached [OF this] show ?thesis
    by (auto simp: init_cmd_manager_def split: sum.splits)
qed

lemma env_of_connected_at_3: "wait_for_connection (env_of fee_sat accepted) 3 = Some 3"
  by (rule wait_for_connection_first) (simp_all add: env_of_fields)

lemma state_A_B_fields:
  "db state_A_B = [request_A\<lparr>txid := Some ''tx1'', fee := Some (Finite 7870610804782742 (- 71))\<rparr>,
            request_B\<lparr>txid := Some ''tx1'', fee := Some (Finite 7870610804782742 (- 70))\<rparr>]"
  "storage state_A_B = [7 \<mapsto> {''tx1''}]" "wallet state_A_B = {''tx1''}"
  "network state_A_B = [tx_A_B]" "seconds state_A_B = 3"
  by (simp_all add: state_A_B_def)

lemma send_wrong_password_A_B:
  "send (env_of 1000 True) ''addrC'' (to_float 29 100) 7 ''wpw'' ''guess'' state_A_B
     = Some (state_A_B, Inl IncorrectAPIPassword)"
  by (simp add: send_def init_cmd_manager_def load_wallet_def env_of_fields env_of_connected_at_3
      state_A_B_fields)

lemma insert_B:
  "insert_transaction ''addrB'' 200000 7 3000 [request_A]
     = ([request_A, request_B], request_B)"
  by (simp add: insert_transaction_def fresh_sr_id_def request_A_fields request_B_def Let_def)

lemma send_A_B_rejected:
  "send (env_of 1000 False) ''addrB'' (to_float 2 1000) 7 ''wpw'' ''secret'' state_A
    = Some (\<lparr>db = [request_A, request_B], storage = [7 \<mapsto> {}], wallet = {},
             network = [], seconds = 3\<rparr>, Inl BroadcastError)"
  apply (simp add: send_def init_state_A env_of_fields details_A_B decision_A_B sat_of_0002)
  apply (simp add: state_A_fields insert_B broadcast_batch_def create_tx_def env_of_fields
      float_1em8_eq async_broadcast_def save_db_def)
  done




lemma env_without_fee_estimates_fields:
  "api_password env_without_fee_estimates = ''secret''"
  "decrypt env_without_fee_estimates w p = (p = ''wpw'')"
  "is_connected env_without_fee_estimates t = (2 \<le> t)"
  "get_fee_estimates env_without_fee_estimates t = []"
  by (simp_all add: env_without_fee_estimates_def env_of_fields)

lemma env_without_fee_estimates_connects:
  "wait_for_connection env_without_fee_estimates 0 = Some 2"
  by (rule wait_for_connection_first) (simp_all add: env_without_fee_estimates_fields)

lemma env_without_fee_estimates_waits:
  "wait_for_fee_estimates env_without_fee_estimates t = None"
  by (rule wait_for_fee_estimates_never) (simp add: env_without_fee_estimates_fields)

lemma init_state_empty:
  "init_cmd_manager (env_of fee_sat accepted) 7 ''wpw'' state_empty
     = Some (state_empty\<lparr>wallet := {}, seconds := 2\<rparr>, Inr ())"
  by (simp add: init_cmd_manager_def load_wallet_def env_of_connects state_empty_fields
      env_of_fields)

lemma details_C:
  "get_tx_details (env_of 1000 accepted) 7 ''addrC'' (to_float 29 100)
      (state_empty\<lparr>wallet := {}, seconds := 2\<rparr>)
    = Some (state_empty\<lparr>wallet := {}, seconds := 3\<rparr>,
        Inr \<lparr>this_tx_fee = Finite 5902958103587057 (- 69),
             total_fee = Finite 5902958103587057 (- 69),
             total_sat_amount = 28999999,
             outputs = [(''addrC'', to_float 29 100)]\<rparr>)"
  by (simp add: get_tx_details_def sat_of_029 state_empty_fields get_unsent_def
      env_of_fee_estimates env_of_fields sat_per_b_20000 get_tx_size_def create_tx_def
      fee_details_def btc_of_1000 share_whole)

lemma decision_C:
  "batching_decision (env_of fee_sat accepted)
     \<lparr>this_tx_fee = f, total_fee = Finite 5902958103587057 (- 69),
      total_sat_amount = 28999999, outputs = outs\<rparr> = Inr True"
  by (simp add: batching_decision_def env_of_fields threshold_5_percent ratio_1000_of_28999999)

lemma send_C:
  "send (env_of 1000 True) ''addrC'' (to_float 29 100) 7 ''wpw'' ''secret'' state_empty
    = Some (state_C, Inr (Finite 5902958103587057 (- 69), 1))"
  apply (simp add: send_def init_state_empty env_of_fields details_C decision_C sat_of_029)
  apply (simp add: insert_transaction_def fresh_sr_id_def state_empty_fields Let_def)
  apply (simp add: broadcast_batch_def create_tx_def env_of_fields float_1em8_eq async_broadcast_def
      save_db_def state_empty_fields update_transactions_def is_queued_def
      share_whole state_C_def request_C_def tx_C_def state_empty_def)
  done

lemma details_A_Z:
  "get_tx_details (env_of 20000 accepted) 7 ''addrZ'' (Finite 0 0) (state_A\<lparr>wallet := {}, seconds := 2\<rparr>)
    = Some (state_A\<lparr>wallet := {}, seconds := 3\<rparr>,
        Inr \<lparr>this_tx_fee = Finite 0 0,
             total_fee = Finite 7378697629483821 (- 65),
             total_sat_amount = 100000,
             outputs = [(''addrZ'', Finite 0 0), (''addrA'', Finite 4611686018427388 (- 62))]\<rparr>)"
  by (simp add: get_tx_details_def sat_of_zero state_A_fields unsent_A request_A_fields
      btc_of_100000 env_of_fee_estimates env_of_fields sat_per_b_20000 get_tx_size_def create_tx_def
      fee_details_def btc_of_20000 share_zero_of_100000)

lemma decision_A_Z:
  "batching_decision (env_of fee_sat accepted)
     \<lparr>this_tx_fee = f, total_fee = Finite 7378697629483821 (- 65),
      total_sat_amount = 100000, outputs = outs\<rparr> = Inr False"
  by (simp add: batching_decision_def env_of_fields threshold_5_percent ratio_20000_of_100000)

lemma insert_Z:
  "insert_transaction ''addrZ'' 0 7 3000 [request_A]
     = ([request_A, request_Z], request_Z)"
  by (simp add: insert_transaction_def fresh_sr_id_def request_A_fields request_Z_def Let_def)

lemma send_A_Z:
  "send (env_of 20000 True) ''addrZ'' (Finite 0 0) 7 ''wpw'' ''secret'' state_A
    = Some (state_A_Z, Inr (Finite 0 0, 42))"
  apply (simp add: send_def init_state_A env_of_fields details_A_Z decision_A_Z sat_of_zero)
  apply (simp add: state_A_fields insert_Z)
  apply (simp add: state_A_def state_A_Z_def request_Z_def)
  done

section \<open>Rows over sequences of calls\<close>

lemma rows_step_trans:
  assumes "rows_step xs ys" and "rows_step ys zs"
  shows "rows_step xs zs"
  unfolding rows_step_def
proof (intro conjI allI impI)
  from assms show "length xs \<le> length zs" by (simp add: rows_step_def)
next
  fix i assume i: "i < length xs"
  with assms have 1: "row_step (xs ! i) (ys ! i)" and 2: "row_step (ys ! i) (zs ! i)"
    by (auto simp: rows_step_def)
  show "row_step (xs ! i) (zs ! i)"
  proof (cases "ys ! i = xs ! i")
    case True
    with 2 show ?thesis by simp
  next
    case False
    with 1 obtain x f where q: "is_queued (xs ! i)"
      and y: "ys ! i = (xs ! i)\<lparr>txid := Some x, fee := Some f\<rparr>"
      by (auto simp: row_step_def)
    from 2 y q show ?thesis
      by (auto simp: row_step_def)
  qed
qed

lemma api_call_rows_step:
  assumes "api_call s s'"
  shows "rows_step (db s) (db s')"
  using assms
proof cases
  case (call_send E addr btc wid wpw pw r)
  then show ?thesis by (rule send_rows_step)
next
  case (call_presend E addr btc wid wpw pw r')
  from presend_frame [OF this] show ?thesis by (simp add: rows_step_refl)
qed

lemma api_calls_rows_step:
  assumes "api_call\<^sup>*\<^sup>* s s'"
  shows "rows_step (db s) (db s')"
  using assms
proof (induction rule: rtranclp_induct)
  case base
  show ?case by (rule rows_step_refl)
next
  case (step t u)
  from step.IH api_call_rows_step [OF step.hyps(2)] show ?case by (rule rows_step_trans)
qed

lemma row_step_fields:
  assumes "row_step r r'"
  shows "sr_id r' = sr_id r \<and> address r' = address r \<and> amount r' = amount r
    \<and> wallet_id r' = wallet_id r \<and> timestamp_ms r' = timestamp_ms r
    \<and> (is_sent r \<longrightarrow> r' = r)"
  using assms by (auto simp: row_step_def is_sent_def)

section \<open>Errors, outputs and the broadcast\<close>

lemma unsent_outputs_addresses:
  "unsent_outputs rows = Inr outs \<Longrightarrow> map fst outs = map address rows"
  by (induction rows arbitrary: outs) (auto split: sum.splits)

lemma get_tx_details_outputs:
  assumes "get_tx_details E wid addr btc s = Some (s', Inr d)"
  shows "map fst (outputs d) = addr # map address (get_unsent wid (db s))
      \<and> (addr, btc) \<in> set (outputs d)"
  using assms
  by (auto simp: get_tx_details_def fee_details_def
      split: sum.splits option.splits prod.splits dest!: unsent_outputs_addresses)

lemma get_unsent_append:
  "get_unsent wid (rows @ [obj]) =
     get_unsent wid rows @ (if wallet_id obj = wid \<and> is_queued obj then [obj] else [])"
  by (simp add: get_unsent_def)

lemma py_int_errors: "py_int x = Inl e \<Longrightarrow> e = OverflowError \<or> e = ValueError"
  by (cases x) auto

lemma fdiv_errors: "fdiv x y = Inl e \<Longrightarrow> e = ZeroDivisionError"
  by (cases x; cases y) (auto split: if_splits)

lemma float_of_int_errors: "float_of_int i = Inl e \<Longrightarrow> e = OverflowError"
  by (auto simp: float_of_int_def split: pyfloat.splits)

lemma int_div_float_errors:
  "int_div_float i y = Inl e \<Longrightarrow> e = OverflowError \<or> e = ZeroDivisionError"
  by (auto simp: int_div_float_def split: sum.splits dest: float_of_int_errors fdiv_errors)

lemma int_truediv_errors:
  "int_truediv a b = Inl e \<Longrightarrow> e = OverflowError \<or> e = ZeroDivisionError"
  by (auto simp: int_truediv_def split: if_splits pyfloat.splits)

lemma unsent_outputs_errors:
  "unsent_outputs rows = Inl e \<Longrightarrow> e = OverflowError \<or> e = ZeroDivisionError"
  by (induction rows) (auto split: sum.splits dest: int_div_float_errors)

lemma batching_decision_errors:
  "batching_decision E d = Inl e \<Longrightarrow> e = OverflowError \<or> e = ZeroDivisionError \<or> e = ValueError"
  by (auto simp: batching_decision_def fee_to_amount_proportion_def
      split: sum.splits dest: int_truediv_errors py_int_errors)

lemma broadcast_batch_failure:
  assumes "broadcast_batch E wid d s = (s', Inl BroadcastError)"
  shows "\<exists>tx. create_tx E (outputs d) (total_fee d) s = Inr tx
      \<and> \<not> broadcast_transaction E tx \<and> db s' = db s
      \<and> tx_id tx \<notin> wallet s' \<and> storage s' wid = Some (wallet s') \<and> network s' = network s"
  using assms
  by (auto simp: broadcast_batch_def async_broadcast_def save_db_def create_tx_def
      split: sum.splits prod.splits if_splits option.splits)

lemma send_broadcast_error:
  assumes "send E addr btc wid wpw pw s = Some (s', Inl BroadcastError)"
  shows "\<exists>s1 d sat rows obj.
      (\<exists>s0. get_tx_details E wid addr btc s0 = Some (s1, Inr d) \<and> db s0 = db s)
      \<and> db s1 = db s \<and> network s1 = network s
      \<and> insert_transaction addr sat wid (clock_ms E (seconds s1)) (db s1) = (rows, obj)
      \<and> broadcast_batch E wid d (s1\<lparr>db := rows\<rparr>) = (s', Inl BroadcastError)"
proof -
  from assms obtain s0 where init: "init_cmd_manager E wid wpw s = Some (s0, Inr ())"
    by (auto simp: send_def init_cmd_manager_def load_wallet_def
        split: option.splits prod.splits sum.splits if_splits)
  from init_cmd_manager_frame [OF init] have s0: "db s0 = db s" "network s0 = network s"
    by simp_all
  from assms init obtain s1 r1 where det: "get_tx_details E wid addr btc s0 = Some (s1, r1)"
    by (auto simp: send_def split: option.splits prod.splits sum.splits if_splits)
  from get_tx_details_frame [OF det] s0 have s1: "db s1 = db s" "network s1 = network s"
    by simp_all
  show ?thesis
  proof (cases r1)
    case (Inl e)
    with assms init det have "s' = s1" and "e = BroadcastError"
      by (auto simp: send_def split: if_splits)
    with det Inl have "get_tx_details E wid addr btc s0 = Some (s1, Inl BroadcastError)" by simp
    then have False
      by (auto simp: get_tx_details_def sat_per_b_def fee_details_def proportional_fee_def
          int_div_float_def float_of_int_def int_truediv_def get_tx_size_def
          split: option.splits prod.splits sum.splits if_splits pyfloat.splits
          dest: py_int_errors unsent_outputs_errors fdiv_errors)
    then show ?thesis ..
  next
    case (Inr d)
    from assms init det Inr obtain sat rows obj where
      ins: "insert_transaction addr sat wid (clock_ms E (seconds s1)) (db s1) = (rows, obj)"
      and bb: "broadcast_batch E wid d (s1\<lparr>db := rows\<rparr>) = (s', Inl BroadcastError)"
      by (auto simp: send_def split: option.splits prod.splits sum.splits if_splits
          dest: batching_decision_errors py_int_errors)
    from det Inr s0 s1 ins bb show ?thesis by blast
  qed
qed




lemma get_tx_details_before_wait:
  assumes "wait_for_fee_estimates E (seconds s) = None"
    and "get_tx_details E wid addr btc s = Some (s', r)"
  shows "s' = s \<and> (r = Inl OverflowError \<or> r = Inl ValueError \<or> r = Inl ZeroDivisionError)"
  using assms
  by (auto simp: get_tx_details_def split: sum.splits dest: py_int_errors unsent_outputs_errors)

lemma init_cmd_manager_seconds:
  assumes "init_cmd_manager E wid wpw s = Some (s', Inr u)"
  shows "seconds s \<le> seconds s'"
  using assms
  by (auto simp: init_cmd_manager_def split: sum.splits option.splits
      dest: wait_for_connection_Some)

lemma unsent_outputs_cong:
  assumes "map (\<lambda>r. (address r, amount r)) xs = map (\<lambda>r. (address r, amount r)) ys"
  shows "unsent_outputs xs = unsent_outputs ys"
  using assms
proof (induction xs arbitrary: ys)
  case Nil
  then show ?case by simp
next
  case (Cons x xs)
  then obtain y ys' where ys: "ys = y # ys'" by (cases ys) auto
  with Cons.prems have "address x = address y" "amount x = amount y"
    and "map (\<lambda>r. (address r, amount r)) xs = map (\<lambda>r. (address r, amount r)) ys'"
    by simp_all
  with Cons.IH [of ys'] ys show ?case by (simp split: sum.splits)
qed

lemma amounts_cong:
  assumes "map (\<lambda>r. (address r, amount r)) xs = map (\<lambda>r. (address r, amount r)) ys"
  shows "map amount xs = map amount ys"
proof -
  have "map amount xs = map snd (map (\<lambda>r. (address r, amount r)) xs)" by simp
  also have "\<dots> = map snd (map (\<lambda>r. (address r, amount r)) ys)" by (simp only: assms)
  also have "\<dots> = map amount ys" by simp
  finally show ?thesis .
qed

lemma get_tx_details_cong:
  assumes "map (\<lambda>r. (address r, amount r)) (get_unsent wid (db s))
         = map (\<lambda>r. (address r, amount r)) (get_unsent wid (db s'))"
    and "wallet s = wallet s'" and "seconds s = seconds s'"
    and "get_fee_estimates E = get_fee_estimates E'"
    and "create_transaction E = create_transaction E'"
    and "estimate_fee E = estimate_fee E'"
  shows "map_option snd (get_tx_details E wid addr btc s)
       = map_option snd (get_tx_details E' wid addr btc s')"
proof -
  note uo = unsent_outputs_cong [OF assms(1)]
  note am = amounts_cong [OF assms(1)]
  note wf = wait_for_fee_estimates_cong [OF assms(4)]
  show ?thesis
    unfolding get_tx_details_def get_tx_size_def create_tx_def
    by (simp add: uo am wf assms(2-) split: sum.splits option.splits prod.splits)
qed

lemma send_returns:
  assumes "send E addr btc wid wpw pw s = Some (s', Inr (f, i))"
  shows "\<exists>s0 s1 d sat rows obj share x.
      init_cmd_manager E wid wpw s = Some (s0, Inr ())
      \<and> get_tx_details E wid addr btc s0 = Some (s1, Inr d)
      \<and> py_int (fmul btc float_1e8) = Inr sat
      \<and> insert_transaction addr sat wid (clock_ms E (seconds s1)) (db s1) = (rows, obj)
      \<and> f = this_tx_fee d \<and> i = sr_id obj
      \<and> (db s' = rows \<or> db s' = update_transactions share wid x rows)"
proof -
  from assms obtain s0 where init: "init_cmd_manager E wid wpw s = Some (s0, Inr ())"
    by (auto simp: send_def split: option.splits prod.splits sum.splits if_splits)
  from assms init obtain s1 d where det: "get_tx_details E wid addr btc s0 = Some (s1, Inr d)"
    by (auto simp: send_def split: option.splits prod.splits sum.splits if_splits)
  from assms init det obtain go sat where dec: "batching_decision E d = Inr go"
    and sat: "py_int (fmul btc float_1e8) = Inr sat"
    by (auto simp: send_def split: option.splits prod.splits sum.splits if_splits)
  obtain rows obj where
    ins: "insert_transaction addr sat wid (clock_ms E (seconds s1)) (db s1) = (rows, obj)"
    by (cases "insert_transaction addr sat wid (clock_ms E (seconds s1)) (db s1)") blast
  obtain s2 r2 where bb: "broadcast_batch E wid d (s1\<lparr>db := rows\<rparr>) = (s2, r2)"
    by (cases "broadcast_batch E wid d (s1\<lparr>db := rows\<rparr>)") blast
  from assms init det dec sat ins bb
  have res: "f = this_tx_fee d" "i = sr_id obj"
    and st: "(\<not> go \<and> s' = s1\<lparr>db := rows\<rparr>) \<or> (go \<and> s' = s2 \<and> r2 = Inr ())"
    by (auto simp: send_def split: sum.splits if_splits)
  from st broadcast_batch_db [OF bb]
  have "db s' = rows \<or> (\<exists>share x. db s' = update_transactions share wid x rows)"
    by auto
  with init det sat ins res show ?thesis by blast
qed

lemma update_transactions_keeps_row:
  assumes "obj \<in> set rows"
  shows "\<exists>r \<in> set (update_transactions share wid x rows).
      sr_id r = sr_id obj \<and> address r = address obj \<and> amount r = amount obj
      \<and> wallet_id r = wallet_id obj"
proof -
  let ?f = "\<lambda>r. if wallet_id r = wid \<and> is_queued r
               then r\<lparr>txid := Some x, fee := Some (share r)\<rparr> else r"
  have 1: "set (update_transactions share wid x rows) = ?f ` set rows"
    by (simp add: update_transactions_def)
  from assms have "?f obj \<in> ?f ` set rows" by (rule imageI)
  then have m: "?f obj \<in> set (update_transactions share wid x rows)" by (simp only: 1)
  have "sr_id (?f obj) = sr_id obj \<and> address (?f obj) = address obj
      \<and> amount (?f obj) = amount obj \<and> wallet_id (?f obj) = wallet_id obj"
    by simp
  with m show ?thesis by blast
qed


subsection \<open>Accuracy of the float model\<close>

text \<open>
  The rounding of \<open>to_float\<close> is the one of binary64: \<open>floor_log2\<close> is the binary
  exponent of the quotient, and a finite result lies within half a unit in the last
  place of the exact quotient.
\<close>

lemma bit_length_bounds:
  "0 < n \<Longrightarrow> 2 ^ (bit_length n - 1) \<le> n \<and> n < 2 ^ bit_length n"
proof (induction n rule: bit_length.induct)
  case (1 n)
  show ?case
  proof (cases "n div 2 = 0")
    case True
    with 1(2) have "n = 1" by presburger
    then show ?thesis by (simp add: bit_length.simps)
  next
    case False
    then have pos: "0 < n div 2" by simp
    from 1(1) [OF _ pos] 1(2)
    have ih: "2 ^ (bit_length (n div 2) - 1) \<le> n div 2" "n div 2 < 2 ^ bit_length (n div 2)"
      by simp_all
    have bl: "bit_length n = Suc (bit_length (n div 2))"
      using 1(2) by (subst bit_length.simps) simp
    have k: "0 < bit_length (n div 2)"
      using pos by (subst bit_length.simps) simp
    then obtain j where j: "bit_length (n div 2) = Suc j" by (cases "bit_length (n div 2)") auto
    from ih j have "2 * 2 ^ j \<le> 2 * (n div 2)" "2 * (n div 2) + 1 < 2 * 2 ^ Suc j"
      by simp_all
    then have "2 ^ Suc j \<le> n" "n < 2 ^ Suc (Suc j)"
      by (simp_all; presburger)+
    with bl j show ?thesis by simp
  qed
qed

lemma round_half_even_error:
  assumes "0 < d"
  shows "\<bar>of_int (round_half_even n d) - (of_int n / of_int d :: rat)\<bar> \<le> 1 / 2"
proof -
  define f where "f = n div d"
  define r where "r = n mod d"
  have n: "n = d * f + r" by (simp add: f_def r_def)
  have r: "0 \<le> r" "r < d" using assms by (simp_all add: r_def)
  have q: "(of_int n / of_int d :: rat) = of_int f + of_int r / of_int d"
    using assms by (simp add: n field_simps)
  have dpos: "(0::rat) < of_int d" using assms by simp
  consider "2 * r < d" | "d < 2 * r" | "2 * r = d" by linarith
  then show ?thesis
  proof cases
    case 1
    then have "round_half_even n d = f"
      by (simp add: round_half_even_def half_even_def f_def r_def)
    moreover from 1 r dpos have "(of_int r / of_int d :: rat) \<le> 1 / 2" "0 \<le> (of_int r / of_int d :: rat)"
      by (simp_all add: field_simps)
    ultimately show ?thesis by (simp add: q)
  next
    case 2
    then have "round_half_even n d = f + 1"
      by (simp add: round_half_even_def half_even_def f_def r_def)
    moreover from 2 r dpos have "1 / 2 \<le> (of_int r / of_int d :: rat)" "(of_int r / of_int d :: rat) \<le> 1"
      by (simp_all add: field_simps)
    ultimately show ?thesis by (simp add: q)
  next
    case 3
    then have rhe: "round_half_even n d = f \<or> round_half_even n d = f + 1"
      by (simp add: round_half_even_def half_even_def f_def r_def)
    from 3 dpos have half: "(of_int r / of_int d :: rat) = 1 / 2"
      by (simp add: field_simps)
    have qq: "(of_int n / of_int d :: rat) = of_int f + 1 / 2"
      by (simp only: q half)
    from rhe show ?thesis
    proof
      assume "round_half_even n d = f"
      then show ?thesis by (simp add: qq)
    next
      assume "round_half_even n d = f + 1"
      then show ?thesis by (simp add: qq)
    qed
  qed
qed



lemma powi_nonneg: "0 \<le> e \<Longrightarrow> (2::rat) powi e = 2 ^ nat e"
  by (simp add: power_int_def)

lemma powi_neg: "\<not> 0 \<le> e \<Longrightarrow> (2::rat) powi e = 1 / 2 ^ nat (- e)"
  by (simp add: power_int_def field_simps)

lemma float_val_powi: "float_val m e = of_int m * (2::rat) powi e"
  by (simp add: float_val_def powi_nonneg powi_neg)

lemma round_at_error:
  assumes "0 < b"
  shows "\<bar>of_int (round_at a b e) - (of_int a / (of_int b * 2 powi e) :: rat)\<bar> \<le> 1 / 2"
proof (cases "0 \<le> e")
  case True
  with assms have d: "0 < b * 2 ^ nat e" by simp
  from True have eq: "(of_int b * 2 powi e :: rat) = of_int (b * 2 ^ nat e)"
    by (simp add: powi_nonneg)
  from True have r: "round_at a b e = round_half_even a (b * 2 ^ nat e)"
    by (simp add: round_at_def)
  show ?thesis unfolding r eq by (rule round_half_even_error [OF d])
next
  case False
  then have eq: "(of_int a / (of_int b * 2 powi e) :: rat) = of_int (a * 2 ^ nat (- e)) / of_int b"
    by (simp add: powi_neg)
  from False have r: "round_at a b e = round_half_even (a * 2 ^ nat (- e)) b"
    by (simp add: round_at_def)
  show ?thesis unfolding r eq by (rule round_half_even_error [OF assms])
qed

lemma pack_value:
  assumes "pack neg m e = Finite m' e'"
  shows "float_val m' e' = (if neg then - 1 else 1) * of_int m * 2 powi e"
proof (cases "m = 2 ^ 53")
  case True
  with assms have me: "m' = (if neg then - (2 ^ 52) else 2 ^ 52)" "e' = e + 1"
    by (simp_all add: pack_def split: if_splits)
  have "(2::rat) powi (e + 1) = 2 powi e * 2"
    by (simp add: power_int_add)
  then show ?thesis using True by (simp add: float_val_powi me)
next
  case False
  with assms show ?thesis
    by (auto simp: pack_def float_val_powi split: if_splits)
qed

lemma to_float_half_ulp:
  assumes "to_float p q = Finite m e" and "q \<noteq> 0"
  shows "\<bar>float_val m e - of_int p / of_int q\<bar> \<le> 2 powi (ulp_exponent \<bar>p\<bar> \<bar>q\<bar>) / 2"
proof (cases "p = 0")
  case True
  with assms show ?thesis by (simp add: to_float_def float_val_powi)
next
  case False
  define a where "a = \<bar>p\<bar>"
  define b where "b = \<bar>q\<bar>"
  define u where "u = ulp_exponent a b"
  define sg :: rat where "sg = (if (p < 0) \<noteq> (q < 0) then - 1 else 1)"
  define x :: rat where "x = of_int a / (of_int b * 2 powi u)"
  define k :: rat where "k = of_int (round_at a b u)"
  have b: "0 < b" using assms(2) by (simp add: b_def)
  have upos: "(0::rat) < 2 powi u" by simp
  from assms(1) False have pk: "pack ((p < 0) \<noteq> (q < 0)) (round_at a b u) u = Finite m e"
    by (simp add: to_float_def a_def b_def u_def)
  from pack_value [OF pk] have v: "float_val m e = sg * k * 2 powi u"
    by (simp add: sg_def k_def)
  have pq1: "(of_int p / of_int q :: rat) = sg * (of_int a / of_int b)"
    using assms(2) False by (auto simp: sg_def a_def b_def abs_if)
  have "(of_int a / of_int b :: rat) = x * 2 powi u"
    using b by (simp add: x_def)
  with pq1 have pq: "(of_int p / of_int q :: rat) = sg * x * 2 powi u" by simp
  have sgabs: "\<bar>sg\<bar> = 1" by (simp add: sg_def)
  have "float_val m e - of_int p / of_int q = sg * 2 powi u * (k - x)"
    unfolding v pq by (simp add: algebra_simps)
  then have "\<bar>float_val m e - of_int p / of_int q\<bar> = 2 powi u * \<bar>k - x\<bar>"
    by (simp add: abs_mult sgabs)
  also have "\<dots> \<le> 2 powi u * (1 / 2)"
    using round_at_error [OF b, of a u] upos unfolding k_def x_def
    by (intro mult_left_mono) simp_all
  finally show ?thesis by (simp add: u_def a_def b_def)
qed

lemma bit_length_powi:
  assumes "0 < a"
  shows "(2::rat) powi (int (bit_length (nat a)) - 1) \<le> of_int a
       \<and> of_int a < (2::rat) powi (int (bit_length (nat a)))"
proof -
  define l where "l = bit_length (nat a)"
  from assms have n: "0 < nat a" by simp
  from bit_length_bounds [OF n] have lo: "2 ^ (l - 1) \<le> nat a" and hi: "nat a < 2 ^ l"
    by (simp_all add: l_def)
  have l: "0 < l"
  proof (rule ccontr)
    assume "\<not> 0 < l"
    with hi n show False by simp
  qed
  then have e: "int l - 1 = int (l - 1)" by simp
  from lo have "int (2 ^ (l - 1)) \<le> int (nat a)" by (simp only: of_nat_le_iff)
  with assms have "(2::int) ^ (l - 1) \<le> a" by simp
  then have "(of_int ((2::int) ^ (l - 1)) :: rat) \<le> of_int a" by (simp only: of_int_le_iff)
  then have 1: "(2::rat) ^ (l - 1) \<le> of_int a" by simp
  from hi have "int (nat a) < int (2 ^ l)" by (simp only: of_nat_less_iff)
  with assms have "a < (2::int) ^ l" by simp
  then have "(of_int a :: rat) < of_int ((2::int) ^ l)" by (simp only: of_int_less_iff)
  then have 2: "of_int a < (2::rat) ^ l" by simp
  from 1 2 show ?thesis unfolding l_def [symmetric] e by (simp only: power_int_of_nat simp_thms)
qed

lemma log2_adjust_test:
  "(if 0 \<le> d then b * 2 ^ nat d \<le> a else b \<le> a * 2 ^ nat (- d))
     \<longleftrightarrow> (of_int b * 2 powi d \<le> (of_int a :: rat))"
proof (cases "0 \<le> d")
  case True
  have "(b * 2 ^ nat d \<le> a) \<longleftrightarrow> ((of_int (b * 2 ^ nat d) :: rat) \<le> of_int a)"
    by (simp only: of_int_le_iff)
  with True show ?thesis by (simp add: powi_nonneg)
next
  case False
  have "(b \<le> a * 2 ^ nat (- d)) \<longleftrightarrow> ((of_int b :: rat) \<le> of_int (a * 2 ^ nat (- d)))"
    by (simp only: of_int_le_iff)
  with False show ?thesis by (simp add: powi_neg field_simps)
qed

lemma floor_log2_bounds:
  assumes "0 < a" and "0 < b"
  shows "(2::rat) powi (floor_log2 a b) \<le> of_int a / of_int b
       \<and> of_int a / of_int b < (2::rat) powi (floor_log2 a b + 1)"
proof -
  define la where "la = int (bit_length (nat a))"
  define lb where "lb = int (bit_length (nat b))"
  define d where "d = la - lb"
  define x :: rat where "x = of_int a"
  define y :: rat where "y = of_int b"
  have y: "0 < y" using assms(2) by (simp add: y_def)
  from bit_length_powi [OF assms(1)] have a1: "2 powi (la - 1) \<le> x" and a2: "x < 2 powi la"
    by (simp_all add: la_def x_def)
  from bit_length_powi [OF assms(2)] have b1: "2 powi (lb - 1) \<le> y" and b2: "y < 2 powi lb"
    by (simp_all add: lb_def y_def)
  have p1: "(2::rat) powi la = 2 powi (d + 1) * 2 powi (lb - 1)"
    by (simp add: d_def power_int_add [symmetric])
  have p2: "(2::rat) powi (la - 1) = 2 powi (d - 1) * 2 powi lb"
    by (simp add: d_def power_int_add [symmetric])
  have m1: "2 powi (d + 1) * 2 powi (lb - 1) \<le> 2 powi (d + 1) * y"
    using b1 by (intro mult_left_mono) simp_all
  from a2 have "x < 2 powi (d + 1) * 2 powi (lb - 1)" by (simp only: p1)
  from this m1 have up: "x < 2 powi (d + 1) * y" by (rule less_le_trans)
  have m2: "2 powi (d - 1) * y < 2 powi (d - 1) * 2 powi lb"
    using b2 by (intro mult_strict_left_mono) simp_all
  from a1 have "2 powi (d - 1) * 2 powi lb \<le> x" by (simp only: p2)
  with m2 have lo: "2 powi (d - 1) * y < x" by (rule less_le_trans)
  have fl: "floor_log2 a b = (if y * 2 powi d \<le> x then d else d - 1)"
    unfolding floor_log2_def log2_adjust_def log2_adjust_test
    by (simp add: d_def la_def lb_def x_def y_def)
  show ?thesis
  proof (cases "y * 2 powi d \<le> x")
    case True
    with fl have f: "floor_log2 a b = d" by simp
    from True y have "2 powi d \<le> x / y" by (simp add: pos_le_divide_eq mult.commute)
    moreover from up y have "x / y < 2 powi (d + 1)" by (simp add: pos_divide_less_eq)
    ultimately show ?thesis unfolding f x_def y_def by simp
  next
    case False
    with fl have f: "floor_log2 a b = d - 1" by simp
    from False have "x < 2 powi d * y" by (simp add: mult.commute)
    with y have "x / y < 2 powi d" by (simp add: pos_divide_less_eq)
    moreover from lo y have "2 powi (d - 1) \<le> x / y" by (simp add: pos_le_divide_eq)
    ultimately show ?thesis unfolding f x_def y_def by simp
  qed
qed


section \<open>What \<open>_get_tx_details\<close> and \<open>send\<close> compute\<close>



lemma get_tx_details_pinned:
  assumes "get_tx_details E wid addr btc s = Some (s', Inr d)"
  shows "\<exists>sat rest t n tf.
        py_int (fmul btc float_1e8) = Inr sat
      \<and> unsent_outputs (get_unsent wid (db s)) = Inr rest
      \<and> wait_for_fee_estimates E (seconds s) = Some t
      \<and> get_tx_size E ((addr, btc) # rest) (s\<lparr>seconds := t\<rparr>) = (s', Inr n)
      \<and> int_div_float (estimate_fee E t n) float_1e8 = Inr tf
      \<and> proportional_fee sat (sat + sum_list (map amount (get_unsent wid (db s)))) tf
          = Inr (this_tx_fee d)
      \<and> total_fee d = tf
      \<and> total_sat_amount d = sat + sum_list (map amount (get_unsent wid (db s)))
      \<and> outputs d = (addr, btc) # rest"
  using assms
  by (clarsimp simp: get_tx_details_def fee_details_def
      split: sum.splits option.splits prod.splits)

lemma send_returns_batch:
  assumes "send E addr btc wid wpw pw s = Some (s', Inr (f, i))"
  shows "\<exists>s0 s1 d sat obj go.
      init_cmd_manager E wid wpw s = Some (s0, Inr ())
      \<and> get_tx_details E wid addr btc s0 = Some (s1, Inr d)
      \<and> batching_decision E d = Inr go
      \<and> py_int (fmul btc float_1e8) = Inr sat
      \<and> is_queued obj \<and> sr_id obj = i \<and> address obj = addr \<and> amount obj = sat
      \<and> wallet_id obj = wid
      \<and> f = this_tx_fee d
      \<and> (if go
         then (\<exists>x n. create_transaction E (wallet s1) (outputs d) (total_fee d) = Some (x, n)
                \<and> network s' = network s
                     @ [\<lparr>tx_id = x, tx_outputs = outputs d, tx_fee = total_fee d, tx_size = n\<rparr>]
                \<and> db s' = update_transactions (fee_share E (total_fee d) (total_sat_amount d))
                             wid x (db s @ [obj]))
         else network s' = network s \<and> db s' = db s @ [obj])"
proof -
  from assms obtain s0 where init: "init_cmd_manager E wid wpw s = Some (s0, Inr ())"
    by (auto simp: send_def split: option.splits prod.splits sum.splits if_splits)
  from assms init obtain s1 d where det: "get_tx_details E wid addr btc s0 = Some (s1, Inr d)"
    by (auto simp: send_def split: option.splits prod.splits sum.splits if_splits)
  from assms init det obtain go sat where dec: "batching_decision E d = Inr go"
    and sat: "py_int (fmul btc float_1e8) = Inr sat"
    by (auto simp: send_def split: option.splits prod.splits sum.splits if_splits)
  from init_cmd_manager_frame [OF init] have s0: "db s0 = db s" "network s0 = network s"
    by simp_all
  from get_tx_details_frame [OF det] s0 have s1: "db s1 = db s" "network s1 = network s"
    by simp_all
  obtain rows obj where
    ins: "insert_transaction addr sat wid (clock_ms E (seconds s1)) (db s1) = (rows, obj)"
    by (cases "insert_transaction addr sat wid (clock_ms E (seconds s1)) (db s1)") blast
  from insert_transaction_row [OF ins] s1
  have obj: "rows = db s @ [obj]" "is_queued obj" "address obj = addr" "amount obj = sat"
    "wallet_id obj = wid"
    by simp_all
  obtain s2 r2 where bb: "broadcast_batch E wid d (s1\<lparr>db := rows\<rparr>) = (s2, r2)"
    by (cases "broadcast_batch E wid d (s1\<lparr>db := rows\<rparr>)") blast
  from assms init det dec sat ins bb
  have res: "f = this_tx_fee d" "i = sr_id obj"
    and st: "(\<not> go \<and> s' = s1\<lparr>db := rows\<rparr>) \<or> (go \<and> s' = s2 \<and> r2 = Inr ())"
    by (auto simp: send_def split: sum.splits if_splits)
  have fin: "if go
         then (\<exists>x n. create_transaction E (wallet s1) (outputs d) (total_fee d) = Some (x, n)
                \<and> network s' = network s
                     @ [\<lparr>tx_id = x, tx_outputs = outputs d, tx_fee = total_fee d, tx_size = n\<rparr>]
                \<and> db s' = update_transactions (fee_share E (total_fee d) (total_sat_amount d))
                             wid x (db s @ [obj]))
         else network s' = network s \<and> db s' = db s @ [obj]"
  proof (cases go)
    case False
    with st have "s' = s1\<lparr>db := rows\<rparr>" by simp
    with False s1 obj show ?thesis by simp
  next
    case True
    with st have s': "s' = s2" and r2: "r2 = Inr ()" by simp_all
    from broadcast_batch_db [OF bb] r2 obtain tx where
      tx: "create_tx E (outputs d) (total_fee d) (s1\<lparr>db := rows\<rparr>) = Inr tx"
      and net: "network s2 = network (s1\<lparr>db := rows\<rparr>) @ [tx]"
      and db2: "db s2 = update_transactions (fee_share E (total_fee d) (total_sat_amount d))
                         wid (tx_id tx) (db (s1\<lparr>db := rows\<rparr>))"
      by auto
    from tx obtain x n where
      cr: "create_transaction E (wallet s1) (outputs d) (total_fee d) = Some (x, n)"
      and txe: "tx = \<lparr>tx_id = x, tx_outputs = outputs d, tx_fee = total_fee d, tx_size = n\<rparr>"
      by (auto simp: create_tx_def split: option.splits)
    from cr net db2 txe s' s1 obj True show ?thesis by simp
  qed
  from init det dec sat obj res fin show ?thesis by blast
qed

subsection \<open>C1: the fee share of a request\<close>

text \<open>C1, as the code has it.  Whenever \<open>presend\<close> or \<open>send\<close> returns a fee for a request,
  that fee is the proportional share \<open>(sat_amount / total_sat_amount) * total_fee\<close>,
  computed in floats on BTC values: \<open>sat_amount\<close> is the integer amount of the request,
  \<open>total_sat_amount\<close> adds the amounts of the unsent requests of the wallet, and
  \<open>total_fee\<close> is the fee estimated, once the fee estimates have arrived, for the size of
  the transaction that pays the request and every unsent request of the wallet, divided by
  \<open>1.0e8\<close>.  Nothing is rounded to satoshis and no remainder is added.  After \<open>send\<close> the
  table is the old one with the new request appended, either left as it is (the request
  stays queued) or, when the batch was broadcast, updated by \<open>update_transactions\<close> with
  the shares derived from exactly this \<open>total_fee\<close> and \<open>total_sat_amount\<close>.\<close>

theorem returned_fee_is_float_proportion:
  assumes "presend E addr btc wid wpw pw s = Some (s', Inr f)
         \<or> send E addr btc wid wpw pw s = Some (s', Inr (f, i))"
  shows "\<exists>s0 t rest s1 n sat tf.
        init_cmd_manager E wid wpw s = Some (s0, Inr ())
      \<and> py_int (fmul btc float_1e8) = Inr sat
      \<and> unsent_outputs (get_unsent wid (db s)) = Inr rest
      \<and> wait_for_fee_estimates E (seconds s0) = Some t
      \<and> get_tx_size E ((addr, btc) # rest) (s0\<lparr>seconds := t\<rparr>) = (s1, Inr n)
      \<and> int_div_float (estimate_fee E t n) float_1e8 = Inr tf
      \<and> proportional_fee sat (sat + sum_list (map amount (get_unsent wid (db s)))) tf = Inr f
      \<and> (send E addr btc wid wpw pw s = Some (s', Inr (f, i)) \<longrightarrow>
           (\<exists>obj. sr_id obj = i \<and> address obj = addr \<and> amount obj = sat \<and> wallet_id obj = wid
              \<and> is_queued obj
              \<and> (db s' = db s @ [obj]
                  \<or> (\<exists>x. db s' = update_transactions
                        (fee_share E tf (sat + sum_list (map amount (get_unsent wid (db s)))))
                        wid x (db s @ [obj])))))"
proof -
  from assms obtain s0 where init: "init_cmd_manager E wid wpw s = Some (s0, Inr ())"
    by (auto simp: presend_def send_def split: option.splits prod.splits sum.splits if_splits)
  from assms init obtain s1 d where det: "get_tx_details E wid addr btc s0 = Some (s1, Inr d)"
    and f: "f = this_tx_fee d"
    by (auto simp: presend_def send_def split: option.splits prod.splits sum.splits if_splits)
  from init_cmd_manager_frame [OF init] have s0: "db s0 = db s" by simp
  from get_tx_details_pinned [OF det] s0 f obtain sat rest t n tf where
    sat: "py_int (fmul btc float_1e8) = Inr sat"
    and rest: "unsent_outputs (get_unsent wid (db s)) = Inr rest"
    and t: "wait_for_fee_estimates E (seconds s0) = Some t"
    and n: "get_tx_size E ((addr, btc) # rest) (s0\<lparr>seconds := t\<rparr>) = (s1, Inr n)"
    and tf: "int_div_float (estimate_fee E t n) float_1e8 = Inr tf"
    and share: "proportional_fee sat (sat + sum_list (map amount (get_unsent wid (db s)))) tf
                  = Inr f"
    and tfd: "total_fee d = tf"
    and total: "total_sat_amount d = sat + sum_list (map amount (get_unsent wid (db s)))"
    by auto
  have rows: "send E addr btc wid wpw pw s = Some (s', Inr (f, i)) \<longrightarrow>
           (\<exists>obj. sr_id obj = i \<and> address obj = addr \<and> amount obj = sat \<and> wallet_id obj = wid
              \<and> is_queued obj
              \<and> (db s' = db s @ [obj]
                  \<or> (\<exists>x. db s' = update_transactions
                        (fee_share E tf (sat + sum_list (map amount (get_unsent wid (db s)))))
                        wid x (db s @ [obj]))))"
  proof
    assume "send E addr btc wid wpw pw s = Some (s', Inr (f, i))"
    from send_returns_batch [OF this] init det sat obtain obj :: request and go where
      obj: "is_queued obj" "sr_id obj = i" "address obj = addr" "amount obj = sat"
        "wallet_id obj = wid"
      and fin: "if go
         then (\<exists>x n. create_transaction E (wallet s1) (outputs d) (total_fee d) = Some (x, n)
                \<and> network s' = network s
                     @ [\<lparr>tx_id = x, tx_outputs = outputs d, tx_fee = total_fee d, tx_size = n\<rparr>]
                \<and> db s' = update_transactions (fee_share E (total_fee d) (total_sat_amount d))
                             wid x (db s @ [obj]))
         else network s' = network s \<and> db s' = db s @ [obj]"
      by auto
    from fin have "db s' = db s @ [obj]
        \<or> (\<exists>x. db s' = update_transactions
                        (fee_share E tf (sat + sum_list (map amount (get_unsent wid (db s)))))
                        wid x (db s @ [obj]))"
      unfolding tfd total by (cases go) auto
    with obj show "\<exists>obj. sr_id obj = i \<and> address obj = addr \<and> amount obj = sat
              \<and> wallet_id obj = wid \<and> is_queued obj
              \<and> (db s' = db s @ [obj]
                  \<or> (\<exists>x. db s' = update_transactions
                        (fee_share E tf (sat + sum_list (map amount (get_unsent wid (db s)))))
                        wid x (db s @ [obj])))"
      by blast
  qed
  from init sat rest t n tf share rows show ?thesis by blast
qed

theorem returned_fee_is_float_proportion_witness:
  "send (env_of 1000 True) ''addrB'' (to_float 2 1000) 7 ''wpw'' ''secret'' state_A
     = Some (state_A_B, Inr (Finite 7870610804782742 (- 70), 42))
   \<and> (\<exists>s0 t rest s1 n sat tf.
         init_cmd_manager (env_of 1000 True) 7 ''wpw'' state_A = Some (s0, Inr ())
       \<and> py_int (fmul (to_float 2 1000) float_1e8) = Inr sat
       \<and> unsent_outputs (get_unsent 7 (db state_A)) = Inr rest
       \<and> wait_for_fee_estimates (env_of 1000 True) (seconds s0) = Some t
       \<and> get_tx_size (env_of 1000 True) ((''addrB'', to_float 2 1000) # rest)
            (s0\<lparr>seconds := t\<rparr>) = (s1, Inr n)
       \<and> int_div_float (estimate_fee (env_of 1000 True) t n) float_1e8 = Inr tf
       \<and> proportional_fee sat (sat + sum_list (map amount (get_unsent 7 (db state_A)))) tf
           = Inr (Finite 7870610804782742 (- 70))
       \<and> (\<exists>obj. sr_id obj = 42 \<and> amount obj = sat
            \<and> (db state_A_B = db state_A @ [obj]
                \<or> (\<exists>x. db state_A_B = update_transactions
                      (fee_share (env_of 1000 True) tf
                         (sat + sum_list (map amount (get_unsent 7 (db state_A)))))
                      7 x (db state_A @ [obj])))))"
proof -
  have snd: "send (env_of 1000 True) ''addrB'' (to_float 2 1000) 7 ''wpw'' ''secret'' state_A
     = Some (state_A_B, Inr (Finite 7870610804782742 (- 70), 42))"
    unfolding state_A_B_def by (rule send_A_B_ok)
  from returned_fee_is_float_proportion [OF disjI2, OF snd] snd show ?thesis
    by blast
qed

text \<open>C1 as stated fails: with A (100000 satoshis) queued, B (0.002 BTC) new and an
  estimated fee of 1000 satoshis, the share returned for B, by \<open>presend\<close> and by the \<open>send\<close>
  that broadcasts A and B together, lies strictly between 666 and 667 satoshis, so it is
  no integer attribution; and the shares the formula gives to B and to A do not add up
  to the total fee exactly.\<close>

theorem fee_shares_do_not_sum_to_total_fee_counterexample:
  "map_option snd
      (presend (env_of 1000 True) ''addrB'' (to_float 2 1000) 7 ''wpw'' ''secret'' state_A)
     = Some (Inr (Finite 7870610804782742 (- 70)))
   \<and> map_option snd
      (send (env_of 1000 True) ''addrB'' (to_float 2 1000) 7 ''wpw'' ''secret'' state_A)
     = Some (Inr (Finite 7870610804782742 (- 70), 42))
   \<and> 666 < float_val 7870610804782742 (- 70) * 10 ^ 8
   \<and> float_val 7870610804782742 (- 70) * 10 ^ 8 < 667
   \<and> int_div_float (estimate_fee (env_of 1000 True) 3 250) float_1e8
        = Inr (Finite 5902958103587057 (- 69))
   \<and> proportional_fee 200000 300000 (Finite 5902958103587057 (- 69))
        = Inr (Finite 7870610804782742 (- 70))
   \<and> proportional_fee 100000 300000 (Finite 5902958103587057 (- 69))
        = Inr (Finite 7870610804782742 (- 71))
   \<and> float_val 7870610804782742 (- 70) + float_val 7870610804782742 (- 71)
        \<noteq> float_val 5902958103587057 (- 69)"
  by (simp add: presend_A_B send_A_B_ok env_of_fields btc_of_1000 share_200000_of_300000
      share_100000_of_300000 float_val_def)

subsection \<open>C2: the batching decision\<close>




subsection \<open>C3: a request only moves from queued to sent\<close>

text \<open>C3.  Over any sequence of completed \<open>send\<close> and \<open>presend\<close> calls, every row keeps
  its position, identifier, address, amount, wallet and timestamp; a row that is sent is
  never changed again, and a row that is queued afterwards was queued before: the only
  status change is from queued to sent, at most once.  (The source has no failed status:
  the status is derived from \<open>txid\<close> alone.)\<close>

theorem status_only_moves_from_queued_to_sent:
  assumes "api_call\<^sup>*\<^sup>* s s'" and "i < length (db s)"
  shows "i < length (db s')
     \<and> sr_id (db s' ! i) = sr_id (db s ! i) \<and> address (db s' ! i) = address (db s ! i)
     \<and> amount (db s' ! i) = amount (db s ! i) \<and> wallet_id (db s' ! i) = wallet_id (db s ! i)
     \<and> timestamp_ms (db s' ! i) = timestamp_ms (db s ! i)
     \<and> (is_sent (db s ! i) \<longrightarrow> db s' ! i = db s ! i)
     \<and> (is_queued (db s' ! i) \<longrightarrow> is_queued (db s ! i))"
proof -
  from api_calls_rows_step [OF assms(1)] assms(2)
  have len: "i < length (db s')" and rs: "row_step (db s ! i) (db s' ! i)"
    by (auto simp: rows_step_def)
  from row_step_fields [OF rs] len show ?thesis
    by (auto simp: is_sent_def)
qed

theorem status_only_moves_from_queued_to_sent_witness:
  "api_call\<^sup>*\<^sup>* state_A state_A_B \<and> 0 < length (db state_A)
   \<and> is_queued (db state_A ! 0) \<and> is_sent (db state_A_B ! 0)
   \<and> sr_id (db state_A_B ! 0) = sr_id (db state_A ! 0)
   \<and> api_call\<^sup>*\<^sup>* state_A_B state_A_B \<and> api_call state_A_B state_A_B
   \<and> db state_A_B ! 0 = request_A\<lparr>txid := Some ''tx1'', fee := Some (Finite 7870610804782742 (- 71))\<rparr>"
proof -
  have 1: "api_call state_A state_A_B"
    unfolding state_A_B_def by (rule call_send [OF send_A_B_ok])
  have 2: "api_call state_A_B state_A_B"
    by (rule call_send [OF send_wrong_password_A_B])
  from 1 2 have run: "api_call\<^sup>*\<^sup>* state_A state_A_B" by auto
  have len: "0 < length (db state_A)" by (simp add: state_A_fields)
  from status_only_moves_from_queued_to_sent [OF run len] 1 2 run
  show ?thesis
    by (simp add: state_A_fields state_A_B_fields is_queued_def is_sent_def request_A_fields)
qed

subsection \<open>C4: a failed broadcast is rolled back\<close>

text \<open>C4.  Whenever \<open>send\<close> ends with the broadcast error, the transaction that was built
  for the batch (the new output and one output per unsent request of the wallet) and
  refused by the network is neither in the loaded wallet nor in the stored wallet file,
  the network holds no new transaction, and the request table is the old one plus the new
  request, which is queued: no request was marked sent, and every request of the batch is
  among the unsent ones of the next cycle.\<close>

theorem failed_broadcast_is_rolled_back:
  assumes "send E addr btc wid wpw pw s = Some (s', Inl BroadcastError)"
  shows "\<exists>obj tx. db s' = db s @ [obj] \<and> is_queued obj \<and> address obj = addr \<and> wallet_id obj = wid
      \<and> get_unsent wid (db s') = get_unsent wid (db s) @ [obj]
      \<and> \<not> broadcast_transaction E tx
      \<and> map fst (tx_outputs tx) = addr # map address (get_unsent wid (db s))
      \<and> tx_id tx \<notin> wallet s' \<and> storage s' wid = Some (wallet s')
      \<and> network s' = network s"
proof -
  from send_broadcast_error [OF assms] obtain s0 s1 d sat rows obj where
    det: "get_tx_details E wid addr btc s0 = Some (s1, Inr d)" and s0: "db s0 = db s"
    and s1: "db s1 = db s" "network s1 = network s"
    and ins: "insert_transaction addr sat wid (clock_ms E (seconds s1)) (db s1) = (rows, obj)"
    and bb: "broadcast_batch E wid d (s1\<lparr>db := rows\<rparr>) = (s', Inl BroadcastError)"
    by blast
  from insert_transaction_row [OF ins] s1
  have obj: "rows = db s @ [obj]" "is_queued obj" "address obj = addr" "wallet_id obj = wid"
    by simp_all
  from broadcast_batch_failure [OF bb] obtain tx where
    tx: "create_tx E (outputs d) (total_fee d) (s1\<lparr>db := rows\<rparr>) = Inr tx"
    and rej: "\<not> broadcast_transaction E tx" and db': "db s' = rows"
    and gone: "tx_id tx \<notin> wallet s'" "storage s' wid = Some (wallet s')"
    and net: "network s' = network s1"
    by auto
  from tx have "tx_outputs tx = outputs d"
    by (auto simp: create_tx_def split: option.splits)
  with get_tx_details_outputs [OF det] s0
  have outs: "map fst (tx_outputs tx) = addr # map address (get_unsent wid (db s))" by simp
  from db' obj have "get_unsent wid (db s') = get_unsent wid (db s) @ [obj]"
    by (simp add: get_unsent_append)
  with db' obj rej outs gone net s1 show ?thesis by auto
qed


theorem failed_broadcast_is_rolled_back_witness:
  "send (env_of 1000 False) ''addrB'' (to_float 2 1000) 7 ''wpw'' ''secret'' state_A
     = Some (\<lparr>db = [request_A, request_B], storage = [7 \<mapsto> {}], wallet = {},
              network = [], seconds = 3\<rparr>, Inl BroadcastError)
   \<and> (\<exists>obj. [request_A, request_B] = db state_A @ [obj] \<and> is_queued obj
         \<and> get_unsent 7 [request_A, request_B] = get_unsent 7 (db state_A) @ [obj])"
  using failed_broadcast_is_rolled_back [OF send_A_B_rejected] send_A_B_rejected
  by auto

subsection \<open>C5: waiting for fee estimates\<close>

text \<open>C5, as the code has it.  The wait for fee estimates has no timeout.  If the network
  never has fee estimates from the start of the cycle on, \<open>wait_for_fee_estimates\<close> never
  returns; \<open>_get_tx_details\<close> can then only end by an arithmetic error raised before the
  wait, with the state untouched, and \<open>presend\<close> never returns a fee; whenever it returns
  the request table is unchanged.  If the network has fee estimates at some time, the
  wait ends at the first such time.\<close>

theorem fee_estimates_are_awaited_without_timeout:
  "((\<forall>k. seconds s \<le> k \<longrightarrow> get_fee_estimates E k = []) \<longrightarrow>
        wait_for_fee_estimates E (seconds s) = None
      \<and> (\<forall>s' r. get_tx_details E wid addr btc s = Some (s', r) \<longrightarrow>
            s' = s \<and> (r = Inl OverflowError \<or> r = Inl ValueError \<or> r = Inl ZeroDivisionError))
      \<and> (\<forall>s' r. presend E addr btc wid wpw pw s = Some (s', r) \<longrightarrow>
            db s' = db s \<and> (\<exists>e. r = Inl e)))
   \<and> (\<forall>k. seconds s \<le> k \<and> get_fee_estimates E k \<noteq> [] \<longrightarrow>
        (\<exists>t. wait_for_fee_estimates E (seconds s) = Some t \<and> t \<le> k
            \<and> get_fee_estimates E t \<noteq> []
            \<and> (\<forall>j. seconds s \<le> j \<and> j < t \<longrightarrow> get_fee_estimates E j = [])))"
proof (intro conjI impI allI)
  assume never: "\<forall>k. seconds s \<le> k \<longrightarrow> get_fee_estimates E k = []"
  then show none: "wait_for_fee_estimates E (seconds s) = None"
    by (rule wait_for_fee_estimates_never)
  {
    fix s' r
    assume "get_tx_details E wid addr btc s = Some (s', r)"
    from get_tx_details_before_wait [OF none this]
    show "s' = s" and "r = Inl OverflowError \<or> r = Inl ValueError \<or> r = Inl ZeroDivisionError"
      by simp_all
  }
  {
    fix s' r
    assume ps: "presend E addr btc wid wpw pw s = Some (s', r)"
    from presend_frame [OF ps] show "db s' = db s" by simp
    show "\<exists>e. r = Inl e"
    proof (cases r)
      case (Inl e)
      then show ?thesis by blast
    next
      case (Inr f)
      with ps obtain s0 where init: "init_cmd_manager E wid wpw s = Some (s0, Inr ())"
        and det: "\<exists>d. get_tx_details E wid addr btc s0 = Some (s', Inr d)"
        by (auto simp: presend_def split: option.splits prod.splits sum.splits if_splits)
      from init_cmd_manager_seconds [OF init] never
      have "\<forall>k. seconds s0 \<le> k \<longrightarrow> get_fee_estimates E k = []" by auto
      then have "wait_for_fee_estimates E (seconds s0) = None"
        by (rule wait_for_fee_estimates_never)
      from det get_tx_details_before_wait [OF this] have False by blast
      then show ?thesis ..
    qed
  }
next
  fix k
  assume k: "seconds s \<le> k \<and> get_fee_estimates E k \<noteq> []"
  then have "get_fee_estimates E (seconds s + (k - seconds s)) \<noteq> []" by simp
  from wait_for_fee_estimates_reached [OF this] obtain t
    where t: "wait_for_fee_estimates E (seconds s) = Some t" by blast
  from wait_for_fee_estimates_Some [OF t] k have "t \<le> k"
    by (meson not_le_imp_less)
  with t wait_for_fee_estimates_Some [OF t]
  show "\<exists>t. wait_for_fee_estimates E (seconds s) = Some t \<and> t \<le> k
            \<and> get_fee_estimates E t \<noteq> []
            \<and> (\<forall>j. seconds s \<le> j \<and> j < t \<longrightarrow> get_fee_estimates E j = [])"
    by blast
qed

theorem fee_estimates_are_awaited_without_timeout_witness:
  "wait_for_fee_estimates env_without_fee_estimates (seconds state_A) = None
   \<and> seconds state_A \<le> 5 \<and> get_fee_estimates (env_of 1000 True) 5 \<noteq> []
   \<and> (\<exists>t. wait_for_fee_estimates (env_of 1000 True) (seconds state_A) = Some t \<and> t \<le> 5)"
proof -
  have never: "\<forall>k. seconds state_A \<le> k \<longrightarrow> get_fee_estimates env_without_fee_estimates k = []"
    by (simp add: env_without_fee_estimates_fields)
  have later: "seconds state_A \<le> 5 \<and> get_fee_estimates (env_of 1000 True) 5 \<noteq> []"
    by (simp add: state_A_fields env_of_fields)
  from fee_estimates_are_awaited_without_timeout
         [of state_A env_without_fee_estimates 7 "''addrB''" "to_float 2 1000" "''wpw''" "''secret''"]
       never
  have 1: "wait_for_fee_estimates env_without_fee_estimates (seconds state_A) = None"
    by blast
  from fee_estimates_are_awaited_without_timeout
         [of state_A "env_of 1000 True" 7 "''addrB''" "to_float 2 1000" "''wpw''" "''secret''"]
       later
  have 2: "\<exists>t. wait_for_fee_estimates (env_of 1000 True) (seconds state_A) = Some t \<and> t \<le> 5"
    by blast
  from later 1 2 show ?thesis by blast
qed

text \<open>C5 as stated fails: with a network that never has fee estimates, \<open>presend\<close> and
  \<open>send\<close> never return; no error of any kind is raised.\<close>

theorem no_fee_estimates_blocks_forever_counterexample:
  "presend env_without_fee_estimates ''addrB'' (to_float 2 1000) 7 ''wpw'' ''secret'' state_A = None
   \<and> send env_without_fee_estimates ''addrB'' (to_float 2 1000) 7 ''wpw'' ''secret'' state_A = None"
proof -
  have init: "init_cmd_manager env_without_fee_estimates 7 ''wpw'' state_A
      = Some (state_A\<lparr>wallet := {}, seconds := 2\<rparr>, Inr ())"
    by (simp add: init_cmd_manager_def load_wallet_def env_without_fee_estimates_connects
        state_A_fields env_without_fee_estimates_fields)
  have det: "get_tx_details env_without_fee_estimates 7 ''addrB'' (to_float 2 1000)
      (state_A\<lparr>wallet := {}, seconds := 2\<rparr>) = None"
    by (simp add: get_tx_details_def sat_of_0002 state_A_fields unsent_A request_A_fields
        btc_of_100000 env_without_fee_estimates_waits)
  from init det show ?thesis
    by (simp add: presend_def send_def env_without_fee_estimates_fields)
qed

subsection \<open>C6: two requests within the threshold are sent in one transaction\<close>



subsection \<open>C7: amounts and fees\<close>

text \<open>C7, as the code has it.  The amount of a request arrives as a float in BTC.  The
  amount stored with the request is an integer number of satoshis (the value the code
  obtains as \<open>int(btc_amount * 1.0e8)\<close>), and so is \<open>total_sat_amount\<close>, the sum of that
  amount and the stored amounts of the unsent requests of the wallet.  The fees are floats
  in BTC: \<open>total_fee\<close> is the fee estimated for the size of the transaction paying the
  whole batch, divided by \<open>1.0e8\<close> in floats, and the fee returned to the caller is the
  proportional share \<open>(sat_amount / total_sat_amount) * total_fee\<close> in floats.\<close>

theorem stored_amount_is_integer_and_fee_is_float:
  assumes "send E addr btc wid wpw pw s = Some (s', Inr (f, i))"
  shows "\<exists>s0 t rest s1 n sat tf r.
        init_cmd_manager E wid wpw s = Some (s0, Inr ())
      \<and> py_int (fmul btc float_1e8) = Inr sat
      \<and> r \<in> set (db s') \<and> sr_id r = i \<and> address r = addr \<and> wallet_id r = wid
      \<and> amount r = sat
      \<and> unsent_outputs (get_unsent wid (db s)) = Inr rest
      \<and> wait_for_fee_estimates E (seconds s0) = Some t
      \<and> get_tx_size E ((addr, btc) # rest) (s0\<lparr>seconds := t\<rparr>) = (s1, Inr n)
      \<and> int_div_float (estimate_fee E t n) float_1e8 = Inr tf
      \<and> proportional_fee sat (sat + sum_list (map amount (get_unsent wid (db s)))) tf = Inr f"
proof -
  from send_returns [OF assms] obtain s0 s1 d sat rows obj share x where
    init: "init_cmd_manager E wid wpw s = Some (s0, Inr ())"
    and det: "get_tx_details E wid addr btc s0 = Some (s1, Inr d)"
    and sat: "py_int (fmul btc float_1e8) = Inr sat"
    and ins: "insert_transaction addr sat wid (clock_ms E (seconds s1)) (db s1) = (rows, obj)"
    and f: "f = this_tx_fee d" and i: "i = sr_id obj"
    and db': "db s' = rows \<or> db s' = update_transactions share wid x rows"
    by blast
  from insert_transaction_row [OF ins]
  have obj: "obj \<in> set rows" "address obj = addr" "amount obj = sat" "wallet_id obj = wid"
    by simp_all
  from db' obj i update_transactions_keeps_row [OF obj(1), of share wid x]
  have row: "\<exists>r \<in> set (db s'). sr_id r = i \<and> address r = addr \<and> wallet_id r = wid
      \<and> amount r = sat"
    by auto
  from init_cmd_manager_frame [OF init] have s0: "db s0 = db s" by simp
  from get_tx_details_pinned [OF det] sat s0 f
  have "\<exists>t rest n tf.
        unsent_outputs (get_unsent wid (db s)) = Inr rest
      \<and> wait_for_fee_estimates E (seconds s0) = Some t
      \<and> get_tx_size E ((addr, btc) # rest) (s0\<lparr>seconds := t\<rparr>) = (s1, Inr n)
      \<and> int_div_float (estimate_fee E t n) float_1e8 = Inr tf
      \<and> proportional_fee sat (sat + sum_list (map amount (get_unsent wid (db s)))) tf = Inr f"
    by auto
  with init sat row show ?thesis by blast
qed

theorem stored_amount_is_integer_and_fee_is_float_witness:
  "send (env_of 20000 True) ''addrZ'' (Finite 0 0) 7 ''wpw'' ''secret'' state_A
     = Some (state_A_Z, Inr (Finite 0 0, 42))
   \<and> (\<exists>s0 t rest s1 n sat tf r.
         init_cmd_manager (env_of 20000 True) 7 ''wpw'' state_A = Some (s0, Inr ())
       \<and> py_int (fmul (Finite 0 0) float_1e8) = Inr sat
       \<and> r \<in> set (db state_A_Z) \<and> sr_id r = 42 \<and> amount r = sat
       \<and> unsent_outputs (get_unsent 7 (db state_A)) = Inr rest
       \<and> wait_for_fee_estimates (env_of 20000 True) (seconds s0) = Some t
       \<and> get_tx_size (env_of 20000 True) ((''addrZ'', Finite 0 0) # rest)
            (s0\<lparr>seconds := t\<rparr>) = (s1, Inr n)
       \<and> int_div_float (estimate_fee (env_of 20000 True) t n) float_1e8 = Inr tf
       \<and> proportional_fee sat (sat + sum_list (map amount (get_unsent 7 (db state_A)))) tf
           = Inr (Finite 0 0))"
  using stored_amount_is_integer_and_fee_is_float [OF send_A_Z] send_A_Z
  by blast

text \<open>C7 as stated fails.  A request of 0.29 BTC (29000000 satoshis) is stored with the
  amount 28999999, because \<open>0.29 * 1.0e8\<close> is \<open>28999999.999999996\<close> in floats, and the fee
  returned for an estimated fee of 1000 satoshis is a float that is not exactly 1000
  satoshis: floating-point arithmetic enters the amount and the fee.  And a request of
  0 BTC is stored, beside the queued request A, with the amount 0: no amount of at least
  one satoshi is required.\<close>

theorem float_drift_in_amount_counterexample:
  "send (env_of 1000 True) ''addrC'' (to_float 29 100) 7 ''wpw'' ''secret'' state_empty
     = Some (state_C, Inr (Finite 5902958103587057 (- 69), 1))
   \<and> map amount (db state_C) = [28999999]
   \<and> (28999999 :: int) < 29 * 100000000 div 100
   \<and> estimate_fee (env_of 1000 True) 3 250 = 1000
   \<and> float_val 5902958103587057 (- 69) * 10 ^ 8 \<noteq> 1000
   \<and> send (env_of 20000 True) ''addrZ'' (Finite 0 0) 7 ''wpw'' ''secret'' state_A
     = Some (state_A_Z, Inr (Finite 0 0, 42))
   \<and> map amount (db state_A_Z) = [100000, 0]
   \<and> \<not> (1 :: int) \<le> amount (last (db state_A_Z))"
  by (simp add: send_C state_C_def request_C_def env_of_fields float_val_def
      send_A_Z state_A_Z_def request_Z_def request_A_def)

subsection \<open>C8: the dry run is deterministic\<close>

text \<open>C8.  Two calls of \<open>presend\<close> with the same address, amount, wallet and passwords give
  the same outcome (the same fee, the same error, or both never return) whenever the
  unsent requests of the wallet have the same addresses and amounts, the wallet file and
  the time are the same, and the surroundings answer alike (connection, fee estimates,
  transaction building, fee estimation, configuration).  Nothing else of the state
  matters: not the identifiers or timestamps of the rows, other wallets' rows, sent rows,
  the wallet loaded before, or what the network has accepted.\<close>

theorem presend_is_deterministic:
  assumes "map (\<lambda>r. (address r, amount r)) (get_unsent wid (db s))
         = map (\<lambda>r. (address r, amount r)) (get_unsent wid (db s'))"
    and "storage s wid = storage s' wid" and "seconds s = seconds s'"
    and "api_password E = api_password E'" and "decrypt E = decrypt E'"
    and "is_connected E = is_connected E'"
    and "get_fee_estimates E = get_fee_estimates E'"
    and "create_transaction E = create_transaction E'"
    and "estimate_fee E = estimate_fee E'"
  shows "map_option snd (presend E addr btc wid wpw pw s)
       = map_option snd (presend E' addr btc wid wpw pw s')"
proof -
  have lw: "load_wallet E wid wpw s = load_wallet E' wid wpw s'"
    using assms(2,5) by (simp add: load_wallet_def split: option.splits)
  note wc = wait_for_connection_cong [OF assms(6)]
  show ?thesis
  proof (cases "load_wallet E wid wpw s")
    case (Inl e)
    with lw have l': "load_wallet E' wid wpw s' = Inl e" by simp
    show ?thesis by (simp add: presend_def init_cmd_manager_def Inl l')
  next
    case (Inr txs)
    with lw have l': "load_wallet E' wid wpw s' = Inr txs" by simp
    show ?thesis
    proof (cases "wait_for_connection E (seconds s)")
      case None
      with wc assms(3) have w': "wait_for_connection E' (seconds s') = None" by simp
      show ?thesis by (simp add: presend_def init_cmd_manager_def Inr l' None w')
    next
      case (Some t)
      with wc assms(3) have w': "wait_for_connection E' (seconds s') = Some t" by simp
      have "map_option snd (get_tx_details E wid addr btc (s\<lparr>wallet := txs, seconds := t\<rparr>))
          = map_option snd (get_tx_details E' wid addr btc (s'\<lparr>wallet := txs, seconds := t\<rparr>))"
        by (rule get_tx_details_cong) (simp_all add: assms)
      then show ?thesis
        by (auto simp: presend_def init_cmd_manager_def Inr l' Some w' assms(4)
            split: option.splits sum.splits)
    qed
  qed
qed

theorem presend_is_deterministic_witness:
  "map (\<lambda>r. (address r, amount r)) (get_unsent 7 (db state_A))
     = map (\<lambda>r. (address r, amount r)) (get_unsent 7 (db state_A_other))
   \<and> storage state_A 7 = storage state_A_other 7
   \<and> seconds state_A = seconds state_A_other
   \<and> db state_A \<noteq> db state_A_other
   \<and> map_option snd
        (presend (env_of 1000 True) ''addrB'' (to_float 2 1000) 7 ''wpw'' ''secret'' state_A)
      = Some (Inr (Finite 7870610804782742 (- 70)))
   \<and> map_option snd
        (presend (env_of 1000 False) ''addrB'' (to_float 2 1000) 7 ''wpw'' ''secret'' state_A_other)
      = Some (Inr (Finite 7870610804782742 (- 70)))"
proof -
  let ?E = "env_of 1000 True" and ?E' = "env_of 1000 False"
  have 1: "map (\<lambda>r. (address r, amount r)) (get_unsent 7 (db state_A))
     = map (\<lambda>r. (address r, amount r)) (get_unsent 7 (db state_A_other))"
    by (simp add: state_A_fields unsent_A request_A_fields state_A_other_def get_unsent_def
        is_queued_def)
  have 2: "storage state_A 7 = storage state_A_other 7"
    by (simp add: state_A_fields state_A_other_def)
  have 3: "seconds state_A = seconds state_A_other"
    by (simp add: state_A_fields state_A_other_def)
  have 4: "api_password ?E = api_password ?E'" "decrypt ?E = decrypt ?E'"
    "is_connected ?E = is_connected ?E'" "get_fee_estimates ?E = get_fee_estimates ?E'"
    "create_transaction ?E = create_transaction ?E'" "estimate_fee ?E = estimate_fee ?E'"
    by (simp_all add: env_of_def)
  have 5: "db state_A \<noteq> db state_A_other"
    by (simp add: state_A_fields state_A_other_def)
  have 6: "map_option snd (presend ?E ''addrB'' (to_float 2 1000) 7 ''wpw'' ''secret'' state_A)
      = Some (Inr (Finite 7870610804782742 (- 70)))"
    by (simp add: presend_A_B)
  from presend_is_deterministic [OF 1 2 3 4, of "''addrB''" "to_float 2 1000" "''wpw''" "''secret''"] 6
  have 7: "map_option snd
        (presend ?E' ''addrB'' (to_float 2 1000) 7 ''wpw'' ''secret'' state_A_other)
      = Some (Inr (Finite 7870610804782742 (- 70)))"
    by simp
  from 1 2 3 5 6 7 show ?thesis by (intro conjI)
qed

section \<open>The claims\<close>

subsection \<open>C9: the dry run only reads the request table\<close>

text \<open>C9.  Whenever a call of \<open>presend\<close> returns, with a fee or with an error, the request
  table is the one it started from: no row was inserted, updated or deleted, and the
  unsent requests of the wallet are the same as before.\<close>

theorem presend_leaves_requests_unchanged:
  assumes "presend E addr btc wid wpw pw s = Some (s', r)"
  shows "db s' = db s \<and> get_unsent wid (db s') = get_unsent wid (db s)"
  using presend_frame [OF assms] by simp

theorem presend_leaves_requests_unchanged_witness:
  "presend (env_of 1000 True) ''addrB'' (to_float 2 1000) 7 ''wpw'' ''secret'' state_A
     = Some (state_A\<lparr>wallet := {}, seconds := 3\<rparr>, Inr (Finite 7870610804782742 (- 70)))
   \<and> db (state_A\<lparr>wallet := {}, seconds := 3\<rparr>) = db state_A
   \<and> get_unsent 7 (db (state_A\<lparr>wallet := {}, seconds := 3\<rparr>)) = get_unsent 7 (db state_A)"
  using presend_leaves_requests_unchanged [OF presend_A_B [of True]] presend_A_B [of True]
  by simp

subsection \<open>C10: a wrong API password enqueues nothing\<close>

text \<open>C10.  A call of \<open>send\<close> or \<open>presend\<close> whose \<open>api_password\<close> differs from the configured
  one can only end in an error (the password error, or the wallet failing to load before
  the check), and then the request table is unchanged: the payment is not enqueued.  The
  call does end as soon as the network connects at some time.\<close>

theorem incorrect_api_password_rejected:
  assumes "pw \<noteq> api_password E"
  shows "(\<forall>s' r. send E addr btc wid wpw pw s = Some (s', r) \<longrightarrow>
            (r = Inl IncorrectAPIPassword \<or> r = Inl WalletLoadError) \<and> db s' = db s)
      \<and> (\<forall>s' r. presend E addr btc wid wpw pw s = Some (s', r) \<longrightarrow>
            (r = Inl IncorrectAPIPassword \<or> r = Inl WalletLoadError) \<and> db s' = db s)
      \<and> ((\<exists>k. seconds s \<le> k \<and> is_connected E k) \<longrightarrow>
            send E addr btc wid wpw pw s \<noteq> None \<and> presend E addr btc wid wpw pw s \<noteq> None)"
proof (intro conjI allI impI)
  fix s' r
  assume "send E addr btc wid wpw pw s = Some (s', r)"
  with assms show "r = Inl IncorrectAPIPassword \<or> r = Inl WalletLoadError"
    by (auto simp: send_def init_cmd_manager_def load_wallet_def
        split: option.splits prod.splits sum.splits if_splits)
next
  fix s' r
  assume "send E addr btc wid wpw pw s = Some (s', r)"
  with assms show "db s' = db s"
    by (auto simp: send_def split: option.splits prod.splits sum.splits if_splits
        dest!: init_cmd_manager_frame)
next
  fix s' r
  assume "presend E addr btc wid wpw pw s = Some (s', r)"
  with assms show "r = Inl IncorrectAPIPassword \<or> r = Inl WalletLoadError"
    by (auto simp: presend_def init_cmd_manager_def load_wallet_def
        split: option.splits prod.splits sum.splits if_splits)
next
  fix s' r
  assume "presend E addr btc wid wpw pw s = Some (s', r)"
  then show "db s' = db s"
    using presend_frame by blast
next
  assume "\<exists>k. seconds s \<le> k \<and> is_connected E k"
  then obtain s0 r0 where "init_cmd_manager E wid wpw s = Some (s0, r0)"
    using init_cmd_manager_returns by blast
  with assms show "send E addr btc wid wpw pw s \<noteq> None"
    by (auto simp: send_def split: sum.splits)
next
  assume "\<exists>k. seconds s \<le> k \<and> is_connected E k"
  then obtain s0 r0 where "init_cmd_manager E wid wpw s = Some (s0, r0)"
    using init_cmd_manager_returns by blast
  with assms show "presend E addr btc wid wpw pw s \<noteq> None"
    by (auto simp: presend_def split: sum.splits)
qed

theorem incorrect_api_password_rejected_witness:
  "''guess'' \<noteq> api_password (env_of 1000 True)
   \<and> send (env_of 1000 True) ''addrB'' (to_float 2 1000) 7 ''wpw'' ''guess'' state_A
       = Some (state_A\<lparr>wallet := {}, seconds := 2\<rparr>, Inl IncorrectAPIPassword)
   \<and> db (state_A\<lparr>wallet := {}, seconds := 2\<rparr>) = db state_A
   \<and> seconds state_A \<le> 2 \<and> is_connected (env_of 1000 True) 2
   \<and> presend (env_of 1000 True) ''addrB'' (to_float 2 1000) 7 ''wpw'' ''guess'' state_A \<noteq> None"
proof -
  have pw: "''guess'' \<noteq> api_password (env_of 1000 True)"
    by (simp add: env_of_fields)
  have conn: "\<exists>k. seconds state_A \<le> k \<and> is_connected (env_of 1000 True) k"
    by (rule exI [of _ 2]) (simp add: env_of_fields state_A_fields)
  from incorrect_api_password_rejected [OF pw, of "''addrB''" "to_float 2 1000" 7 "''wpw''" state_A]
    conn send_wrong_password
  show ?thesis
    by (simp add: env_of_fields state_A_fields)
qed

end
